theory Spec2Isabelle
  imports Complex_Main
begin

section \<open>Python values seen by \<open>ModelInfo\<close>\<close>

text \<open>
  Exceptions are values. \<open>ValueError msg\<close> and \<open>AttributeError type attr\<close>
  (\<open>'type' object has no attribute 'attr'\<close>) are the two classes that
  \<open>model_info.py\<close> raises itself, the first by \<open>raise\<close>, the second by reading an
  attribute that was never assigned; \<open>Raised cls msg\<close> is any other exception, coming
  out of a callee (confuse, \<open>eval\<close>, \<open>os.makedirs\<close>, a collaborator).
\<close>

datatype error = ValueError string | AttributeError string string | Raised string string

type_synonym 'a result = "error + 'a"

text \<open>
  A \<open>datetime.date\<close> is its proleptic Gregorian ordinal; subtracting two dates gives a
  \<open>timedelta\<close> whose \<open>days\<close> is the difference of the ordinals, and dates compare as
  their ordinals do.
\<close>

datatype date = Date (toordinal: int)

record timedelta =
  days :: int

definition date_sub :: "date \<Rightarrow> date \<Rightarrow> timedelta" where
  "date_sub a b = \<lparr> days = toordinal a - toordinal b \<rparr>"

definition date_le :: "date \<Rightarrow> date \<Rightarrow> bool" where
  "date_le a b = (toordinal a \<le> toordinal b)"

subsection \<open>Configuration values and confuse views\<close>

text \<open>
  A configuration value is a string (\<open>Scalar\<close>), any other scalar (\<open>Atom\<close>: a number,
  a boolean or null, by the text \<open>str\<close> gives for it and its truth value, as in
  \<open>Atom ''0.25'' True\<close>, \<open>Atom ''0'' False\<close>, \<open>Atom ''None'' False\<close>), or a mapping
  from keys to values (in file order). A view (\<open>config["seir"]\<close>, \<open>view["integration"]\<close>)
  either resolves to a value or to nothing: \<open>None\<close> is the view of a key that is absent.
  The operations are those of the confuse library that the constructor calls:
  \<open>exists()\<close>, subscripting, \<open>keys()\<close>, \<open>get()\<close> and truth-value testing
  (\<open>bool(view)\<close> is \<open>bool(view.get())\<close>). A plain dict argument such as the default
  \<open>{}\<close> is the view that resolves to that mapping. The constructor subscripts only the
  root and the sections in whose \<open>keys()\<close> it has found the key, so a subscript under
  a scalar, where confuse raises \<open>ConfigTypeError\<close>, is a view of nothing here.
\<close>

datatype cfg = Scalar string | Atom string bool | Mapping "(string \<times> cfg) list"

type_synonym view = "cfg option"

definition view_exists :: "view \<Rightarrow> bool" where
  "view_exists v = (v \<noteq> None)"

fun view_getitem :: "view \<Rightarrow> string \<Rightarrow> view" where
  "view_getitem (Some (Mapping kvs)) k = map_of kvs k"
| "view_getitem _ k = None"

fun view_keys :: "view \<Rightarrow> string list result" where
  "view_keys None = Inr []"
| "view_keys (Some (Mapping kvs)) = Inr (map fst kvs)"
| "view_keys (Some (Scalar s)) = Inl (Raised ''ConfigTypeError'' ''must be a collection'')"
| "view_keys (Some (Atom t b)) = Inl (Raised ''ConfigTypeError'' ''must be a collection'')"

fun view_get :: "view \<Rightarrow> cfg result" where
  "view_get None = Inl (Raised ''NotFoundError'' ''not found'')"
| "view_get (Some c) = Inr c"

text \<open>
  Python's truth value: a string is true when it is not empty, a mapping when it has
  an entry, any other scalar as it says.
\<close>

fun truthy :: "cfg \<Rightarrow> bool" where
  "truthy (Scalar s) = (s \<noteq> [])"
| "truthy (Atom t b) = b"
| "truthy (Mapping kvs) = (kvs \<noteq> [])"

definition view_bool :: "view \<Rightarrow> bool result" where
  "view_bool v = (case view_get v of Inl e \<Rightarrow> Inl e | Inr c \<Rightarrow> Inr (truthy c))"

text \<open>
  \<open>str\<close> and \<open>repr\<close> of a configuration value. A string is its own \<open>str\<close> and is
  quoted by \<open>repr\<close> (a string free of quotes and escapes); any other scalar prints
  its text. A mapping is the \<open>OrderedDict\<close> that confuse's loader builds, printed as
  \<open>OrderedDict([('a', 'b'), ('n', 1)])\<close>, and \<open>OrderedDict()\<close> when it is empty.
\<close>

fun comma_join :: "string list \<Rightarrow> string" where
  "comma_join [] = []"
| "comma_join [x] = x"
| "comma_join (x # y # ys) = x @ '', '' @ comma_join (y # ys)"

primrec py_repr :: "cfg \<Rightarrow> string" where
  "py_repr (Scalar s) = [CHR 0x27] @ s @ [CHR 0x27]"
| "py_repr (Atom t b) = t"
| "py_repr (Mapping kvs) =
     ''OrderedDict(''
       @ (if kvs = [] then []
          else ''['' @ comma_join
                 (map (\<lambda>(k, r). ''('' @ [CHR 0x27] @ k @ [CHR 0x27] @ '', '' @ r @ '')'')
                      (map (map_prod id py_repr) kvs)) @ '']'')
       @ '')''"

fun py_str :: "cfg \<Rightarrow> string" where
  "py_str (Scalar s) = s"
| "py_str (Atom t b) = t"
| "py_str (Mapping kvs) = py_repr (Mapping kvs)"

definition str_optional :: "string option \<Rightarrow> string" where
  "str_optional s = (case s of None \<Rightarrow> ''None'' | Some t \<Rightarrow> t)"

section \<open>Collaborators and the outside world\<close>

text \<open>
  What the constructor reads from \<open>subpop_setup\<close>.
\<close>

record subpop =
  nsubpops :: int
  subpop_pop :: "int list"
  mobility :: "((nat \<times> nat) \<times> real) list"
  subpop_names :: "string list"

text \<open>
  Everything \<open>model_info.py\<close> calls but does not define is a parameter:
  \<^item> \<open>config\<close>: the process-wide configuration (\<open>utils.config\<close>), a view of the root;
  \<^item> \<open>float_eval s\<close>: \<open>float(eval(s))\<close>, which returns a number or raises;
  \<^item> \<open>Parameters\<close>, \<open>SeedingAndIC\<close>, \<open>Compartments\<close>: the collaborators'
    constructors, which return an object or raise;
  \<^item> \<open>run_id n\<close>: what the \<open>n\<close>-th call of \<open>file_paths.run_id()\<close> returns;
  \<^item> \<open>now\<close>: \<open>datetime.datetime.now().strftime("%Y%m%d-%H%M%S")\<close>;
  \<^item> \<open>create_dir_name\<close>, \<open>create_file_name\<close>: the path builders of \<open>file_paths\<close>,
    with arguments in the order \<open>run_id, prefix, [index,] ftype[, extension]\<close>;
  \<^item> \<open>makedirs d\<close>: \<open>os.makedirs(d, exist_ok=True)\<close>, \<open>None\<close> when it returns and
    \<open>Some e\<close> when it raises \<open>e\<close>.
\<close>

record ('p, 's, 'c) env =
  config :: view
  float_eval :: "string \<Rightarrow> real result"
  Parameters :: "view \<Rightarrow> date \<Rightarrow> date \<Rightarrow> string list \<Rightarrow> 'p result"
  SeedingAndIC :: "view \<Rightarrow> view \<Rightarrow> 's result"
  Compartments :: "view \<Rightarrow> view \<Rightarrow> 'c result"
  run_id :: "nat \<Rightarrow> string"
  now :: string
  create_dir_name :: "string \<Rightarrow> string \<Rightarrow> string \<Rightarrow> string"
  create_file_name :: "string \<Rightarrow> string \<Rightarrow> int \<Rightarrow> string \<Rightarrow> string \<Rightarrow> string"
  makedirs :: "string \<Rightarrow> error option"

text \<open>
  The effects of a construction that outlive it: the records sent to \<open>logging.info\<close>,
  the lines printed on standard output, and the directories made, oldest first.
\<close>

record world =
  log :: "string list"
  stdout :: "string list"
  dirs :: "string list"

section \<open>The keyword arguments of \<open>ModelInfo.__init__\<close>\<close>

text \<open>
  \<open>None\<close> is Python's \<open>None\<close>. The arguments whose default is \<open>{}\<close> are views; those
  whose default is \<open>None\<close> are optional.
\<close>

record args =
  setup_name :: string
  subpop_setup :: subpop
  nslots :: int
  ti :: date
  tf :: date
  npi_scenario :: "string option"
  npi_config_seir :: view
  seeding_config :: view
  initial_conditions_config :: view
  parameters_config :: view
  seir_config :: "view option"
  outcomes_config :: view
  outcome_scenario :: "string option"
  interactive :: bool
  write_csv :: bool
  write_parquet :: bool
  dt :: "real option"
  first_sim_index :: int
  in_run_id :: "string option"
  in_prefix :: "string option"
  out_run_id :: "string option"
  out_prefix :: "string option"
  stoch_traj_flag :: bool

section \<open>The constructed object\<close>

text \<open>
  The attributes of a \<open>ModelInfo\<close> after \<open>__init__\<close> has returned. An attribute that
  only some paths assign (\<open>integration_method\<close>, \<open>parameters\<close>, \<open>seedingAndIC\<close>,
  \<open>compartments\<close>, \<open>timestamp\<close>, \<open>extension\<close>) is \<open>None\<close> when no assignment ran:
  reading it then raises \<open>AttributeError\<close>. For \<open>dt\<close>, \<open>seir_config\<close> and
  \<open>npi_config_outcomes\<close>, which are always assigned, \<open>None\<close> is Python's \<open>None\<close>.
\<close>

record ('p, 's, 'c) model_info =
  setup_name :: string
  nslots :: int
  dt :: "real option"
  ti :: date
  tf :: date
  npi_scenario :: "string option"
  npi_config_seir :: view
  seeding_config :: view
  initial_conditions_config :: view
  parameters_config :: view
  outcomes_config :: view
  seir_config :: "view option"
  interactive :: bool
  write_csv :: bool
  write_parquet :: bool
  first_sim_index :: int
  outcome_scenario :: "string option"
  subpop_struct :: subpop
  n_days :: int
  nsubpops :: int
  subpop_pop :: "int list"
  mobility :: "((nat \<times> nat) \<times> real) list"
  stoch_traj_flag :: bool
  integration_method :: "cfg option"
  parameters :: "'p option"
  seedingAndIC :: "'s option"
  compartments :: "'c option"
  npi_config_outcomes :: "view option"
  in_run_id :: string
  out_run_id :: string
  in_prefix :: string
  out_prefix :: string
  timestamp :: "string option"
  extension :: "string option"

section \<open>\<open>ModelInfo.__init__\<close>\<close>

subsection \<open>Integration method and time step (lines 92 to 113)\<close>

text \<open>
  Lines 94 to 100, on the value \<open>v\<close> that \<open>["integration"]["method"].get()\<close>
  returned: two aliases are rewritten, then the value must be one of the two names of
  the list, or \<open>ValueError\<close> is raised with the value in its message.
\<close>

definition resolve_method :: "cfg \<Rightarrow> cfg result" where
  "resolve_method v =
     (let m1 = (if v = Scalar ''best.current'' then Scalar ''rk4.jit'' else v);
          m2 = (if m1 = Scalar ''rk4'' then Scalar ''rk4.jit'' else m1)
      in if m2 \<notin> set [Scalar ''rk4.jit'', Scalar ''legacy'']
         then Inl (ValueError (''Unknown integration method '' @ py_str m2 @ ''.''))
         else Inr m2)"

text \<open>
  Lines 101 to 106, inside the \<open>integration\<close> block \<open>ib\<close> whose keys are \<open>iks\<close>:
  the configured \<open>dt\<close> is evaluated only when \<open>self.dt\<close> is still \<open>None\<close>.
\<close>

definition resolve_dt ::
  "('p, 's, 'c) env \<Rightarrow> view \<Rightarrow> string list \<Rightarrow> real option \<Rightarrow> real option result" where
  "resolve_dt E ib iks d =
     (if ''dt'' \<in> set iks \<and> d = None then
        (case view_get (view_getitem ib ''dt'') of
           Inl e \<Rightarrow> Inl e
         | Inr v \<Rightarrow> (case float_eval E (py_str v) of
                      Inl e \<Rightarrow> Inl e
                    | Inr r \<Rightarrow> Inr (Some r)))
      else if d = None then Inr (Some 2)
      else Inr d)"

text \<open>
  Lines 92 to 113. The result is the new \<open>self.dt\<close>, \<open>self.integration_method\<close>
  (\<open>None\<close> when no statement assigned it) and the records logged. \<open>sc\<close> is
  \<open>self.seir_config\<close>. The closing \<open>float(self.dt)\<close> leaves a number as it is.
\<close>

definition init_integration ::
  "('p, 's, 'c) env \<Rightarrow> view option \<Rightarrow> real option
     \<Rightarrow> (real option \<times> cfg option \<times> string list) result" where
  "init_integration E sc d =
     (case sc of
        None \<Rightarrow> Inl (AttributeError ''NoneType'' ''keys'')
      | Some sv \<Rightarrow>
          (case view_keys sv of
             Inl e \<Rightarrow> Inl e
           | Inr ks \<Rightarrow>
               if ''integration'' \<in> set ks then
                 (let ib = view_getitem sv ''integration'' in
                  case view_keys ib of
                    Inl e \<Rightarrow> Inl e
                  | Inr iks \<Rightarrow>
                      (case (if ''method'' \<in> set iks
                             then (case view_get (view_getitem ib ''method'') of
                                     Inl e \<Rightarrow> Inl e
                                   | Inr v \<Rightarrow> (case resolve_method v of
                                                Inl e \<Rightarrow> Inl e
                                              | Inr m \<Rightarrow> Inr (Some m)))
                             else Inr None) of
                         Inl e \<Rightarrow> Inl e
                       | Inr im \<Rightarrow>
                           (case resolve_dt E ib iks d of
                              Inl e \<Rightarrow> Inl e
                            | Inr d1 \<Rightarrow> Inr (d1, im, []))))
               else
                 Inr (Some (case d of None \<Rightarrow> 2 | Some x \<Rightarrow> x),
                      Some (Scalar ''rk4.jit''),
                      [''Integration method not provided, assuming type ''
                         @ py_str (Scalar ''rk4.jit'')])))"

subsection \<open>The SEIR branch (lines 87 to 130)\<close>

text \<open>
  Line 91: \<open>config["seir"].exists() and (seir_config or parameters_config)\<close>, with
  Python's short-circuit evaluation; \<open>seir_config\<close> is the argument, not the attribute.
\<close>

definition seir_branch_runs :: "('p, 's, 'c) env \<Rightarrow> args \<Rightarrow> bool result" where
  "seir_branch_runs E a =
     (if \<not> view_exists (view_getitem (config E) ''seir'') then Inr False
      else
        (case (case args.seir_config a of
                 None \<Rightarrow> Inr False
               | Some v \<Rightarrow> view_bool v) of
           Inl e \<Rightarrow> Inl e
         | Inr True \<Rightarrow> Inr True
         | Inr False \<Rightarrow> view_bool (args.parameters_config a)))"

text \<open>Lines 87 and 88: the attribute \<open>self.seir_config\<close> after the default is taken.\<close>

definition self_seir_config :: "('p, 's, 'c) env \<Rightarrow> args \<Rightarrow> view option" where
  "self_seir_config E a =
     (if args.seir_config a = None \<and> view_exists (view_getitem (config E) ''seir'')
      then Some (view_getitem (config E) ''seir'')
      else args.seir_config a)"

text \<open>
  Lines 91 to 130. The result is \<open>self.dt\<close>, \<open>self.integration_method\<close>,
  \<open>self.parameters\<close>, \<open>self.seedingAndIC\<close> and \<open>self.compartments\<close>; the world
  carries the log, which keeps its records when a later statement raises. When the
  \<open>compartments\<close> section is absent, line 127 skips the construction of
  \<open>Compartments\<close> and nothing is raised.
\<close>

definition init_seir ::
  "('p, 's, 'c) env \<Rightarrow> args \<Rightarrow> world
     \<Rightarrow> world \<times> (real option \<times> cfg option \<times> 'p option \<times> 's option \<times> 'c option) result" where
  "init_seir E a w =
     (case seir_branch_runs E a of
        Inl e \<Rightarrow> (w, Inl e)
      | Inr False \<Rightarrow> (w, Inr (args.dt a, None, None, None, None))
      | Inr True \<Rightarrow>
          (case init_integration E (self_seir_config E a) (args.dt a) of
             Inl e \<Rightarrow> (w, Inl e)
           | Inr (d, im, msgs) \<Rightarrow>
               (let w1 = w\<lparr>log := log w @ msgs\<rparr> in
                case Parameters E (args.parameters_config a) (args.ti a) (args.tf a)
                       (subpop_names (args.subpop_setup a)) of
                  Inl e \<Rightarrow> (w1, Inl e)
                | Inr p \<Rightarrow>
                    (case SeedingAndIC E (args.seeding_config a)
                            (args.initial_conditions_config a) of
                       Inl e \<Rightarrow> (w1, Inl e)
                     | Inr s \<Rightarrow>
                         (case self_seir_config E a of
                            Some sv \<Rightarrow>
                              if view_exists (view_getitem (config E) ''compartments'')
                              then (case Compartments E sv
                                           (view_getitem (config E) ''compartments'') of
                                      Inl e \<Rightarrow> (w1, Inl e)
                                    | Inr c \<Rightarrow>
                                        (w1, Inr (d, im, Some p, Some s, Some c)))
                              else (w1, Inr (d, im, Some p, Some s, None))
                          | None \<Rightarrow> (w1, Inr (d, im, Some p, Some s, None)))))))"

subsection \<open>Outcomes (lines 133 to 136)\<close>

text \<open>
  Line 135 reads \<open>self.config\<close>. No statement of the class assigns an attribute
  \<open>config\<close> (the module-level \<open>config\<close> of lines 87, 91, 127 and 159 is another
  name), so the read raises \<open>AttributeError\<close>.
\<close>

definition self_config :: "view result" where
  "self_config = Inl (AttributeError ''ModelInfo'' ''config'')"

text \<open>The result is \<open>self.npi_config_outcomes\<close>.\<close>

definition init_outcomes :: "args \<Rightarrow> view option result" where
  "init_outcomes a =
     (case view_bool (args.outcomes_config a) of
        Inl e \<Rightarrow> Inl e
      | Inr False \<Rightarrow> Inr None
      | Inr True \<Rightarrow>
          (case self_config of
             Inl e \<Rightarrow> Inl e
           | Inr c \<Rightarrow>
               if view_exists (view_getitem c ''outcomes_modifiers'')
               then Inr (Some (view_getitem c ''outcomes_modifiers''))
               else Inr None))"

subsection \<open>Inputs and outputs (lines 141 to 172)\<close>

text \<open>
  Lines 141 to 154: the run identifiers and the prefixes, each generated when the
  argument is \<open>None\<close>. The result is \<open>self.in_run_id\<close>, \<open>self.out_run_id\<close>,
  \<open>self.in_prefix\<close> and \<open>self.out_prefix\<close>.
\<close>

definition init_run_ids ::
  "('p, 's, 'c) env \<Rightarrow> args \<Rightarrow> string \<times> string \<times> string \<times> string" where
  "init_run_ids E a =
     (let irid = (case args.in_run_id a of None \<Rightarrow> run_id E 0 | Some r \<Rightarrow> r);
          n = (case args.in_run_id a of None \<Rightarrow> 1 | Some r \<Rightarrow> 0);
          orid = (case args.out_run_id a of None \<Rightarrow> run_id E n | Some r \<Rightarrow> r);
          ipfx = (case args.in_prefix a of
                    None \<Rightarrow> ''model_output/'' @ args.setup_name a @ ''/'' @ irid @ ''/''
                  | Some x \<Rightarrow> x);
          opfx = (case args.out_prefix a of
                    None \<Rightarrow> ''model_output/'' @ args.setup_name a @ ''/''
                              @ str_optional (args.npi_scenario a) @ ''/'' @ orid @ ''/''
                  | Some x \<Rightarrow> x)
      in (irid, orid, ipfx, opfx))"

text \<open>Lines 163 to 165: one directory per file type, stopping at the first failure.\<close>

fun make_dirs ::
  "('p, 's, 'c) env \<Rightarrow> string \<Rightarrow> string \<Rightarrow> string list \<Rightarrow> world \<Rightarrow> world \<times> error option" where
  "make_dirs E rid pfx [] w = (w, None)"
| "make_dirs E rid pfx (ftype # ftypes) w =
     (let datadir = create_dir_name E rid pfx ftype in
      case makedirs E datadir of
        Some e \<Rightarrow> (w, Some e)
      | None \<Rightarrow> make_dirs E rid pfx ftypes (w\<lparr>dirs := dirs w @ [datadir]\<rparr>))"

text \<open>Lines 167 to 172: the warning and the default extension.\<close>

definition select_extension :: "bool \<Rightarrow> bool \<Rightarrow> world \<Rightarrow> world \<times> string option" where
  "select_extension csv parquet w =
     (let w1 = (if parquet \<and> csv
                then w\<lparr>stdout := stdout w @
                  [''Confused between reading .csv or parquet. Assuming input file is .parquet'']\<rparr>
                else w)
      in (w1, if parquet then Some ''parquet'' else if csv then Some ''csv'' else None))"

text \<open>
  Lines 156 to 172. The result is \<open>self.timestamp\<close> and \<open>self.extension\<close>, both
  unassigned when neither format is requested.
\<close>

definition init_output ::
  "('p, 's, 'c) env \<Rightarrow> args \<Rightarrow> string \<Rightarrow> string \<Rightarrow> world
     \<Rightarrow> world \<times> (string option \<times> string option) result" where
  "init_output E a orid opfx w =
     (if args.write_csv a \<or> args.write_parquet a then
        (case view_bool (args.outcomes_config a) of
           Inl e \<Rightarrow> (w, Inl e)
         | Inr oc \<Rightarrow>
             (let ftypes =
                    (if view_exists (view_getitem (config E) ''seir'')
                     then [''seir'', ''spar'', ''snpi''] else [])
                    @ (if oc then [''hosp'', ''hpar'', ''hnpi''] else [])
              in case make_dirs E orid opfx ftypes w of
                   (w1, Some e) \<Rightarrow> (w1, Inl e)
                 | (w1, None) \<Rightarrow>
                     (case select_extension (args.write_csv a) (args.write_parquet a) w1 of
                        (w2, ext) \<Rightarrow> (w2, Inr (Some (now E), ext)))))
      else (w, Inr (None, None)))"

subsection \<open>The whole constructor\<close>

definition init ::
  "('p, 's, 'c) env \<Rightarrow> args \<Rightarrow> world \<Rightarrow> world \<times> ('p, 's, 'c) model_info result" where
  "init E a w =
     (if date_le (args.tf a) (args.ti a) then
        (w, Inl (ValueError
                   ''tf (time to finish) is less than or equal to ti (time to start)''))
      else
        (case init_seir E a w of
           (w1, Inl e) \<Rightarrow> (w1, Inl e)
         | (w1, Inr (d, im, p, s, c)) \<Rightarrow>
             (case init_outcomes a of
                Inl e \<Rightarrow> (w1, Inl e)
              | Inr npi \<Rightarrow>
                  (case init_run_ids E a of
                     (irid, orid, ipfx, opfx) \<Rightarrow>
                       (case init_output E a orid opfx w1 of
                          (w2, Inl e) \<Rightarrow> (w2, Inl e)
                        | (w2, Inr (ts, ext)) \<Rightarrow>
                          (w2, Inr \<lparr>
                             setup_name = args.setup_name a,
                             nslots = args.nslots a,
                             dt = d,
                             ti = args.ti a,
                             tf = args.tf a,
                             npi_scenario = args.npi_scenario a,
                             npi_config_seir = args.npi_config_seir a,
                             seeding_config = args.seeding_config a,
                             initial_conditions_config = args.initial_conditions_config a,
                             parameters_config = args.parameters_config a,
                             outcomes_config = args.outcomes_config a,
                             seir_config = self_seir_config E a,
                             interactive = args.interactive a,
                             write_csv = args.write_csv a,
                             write_parquet = args.write_parquet a,
                             first_sim_index = args.first_sim_index a,
                             outcome_scenario = args.outcome_scenario a,
                             subpop_struct = args.subpop_setup a,
                             n_days = days (date_sub (args.tf a) (args.ti a)) + 1,
                             nsubpops = subpop.nsubpops (args.subpop_setup a),
                             subpop_pop = subpop.subpop_pop (args.subpop_setup a),
                             mobility = subpop.mobility (args.subpop_setup a),
                             stoch_traj_flag = args.stoch_traj_flag a,
                             integration_method = im,
                             parameters = p,
                             seedingAndIC = s,
                             compartments = c,
                             npi_config_outcomes = npi,
                             in_run_id = irid,
                             out_run_id = orid,
                             in_prefix = ipfx,
                             out_prefix = opfx,
                             timestamp = ts,
                             extension = ext \<rparr>))))))"

section \<open>File names, reading and writing\<close>

text \<open>Lines 193 to 196: the override when it is not empty, else \<open>self.extension\<close>.\<close>

definition resolve_extension :: "('p, 's, 'c) model_info \<Rightarrow> string \<Rightarrow> string result" where
  "resolve_extension self extension_override =
     (if extension_override \<noteq> [] then Inr extension_override
      else (case extension self of
              None \<Rightarrow> Inl (AttributeError ''ModelInfo'' ''extension'')
            | Some x \<Rightarrow> Inr x))"

definition get_filename ::
  "('p, 's, 'c) env \<Rightarrow> ('p, 's, 'c) model_info \<Rightarrow> string \<Rightarrow> int \<Rightarrow> bool \<Rightarrow> string
     \<Rightarrow> string result" where
  "get_filename E self ftype sim_id inp extension_override =
     (case resolve_extension self extension_override of
        Inl e \<Rightarrow> Inl e
      | Inr ext \<Rightarrow>
          (let rid = (if inp then in_run_id self else out_run_id self);
               prefix = (if inp then in_prefix self else out_prefix self)
           in Inr (create_file_name E rid prefix
                     (sim_id + first_sim_index self - 1) ftype ext)))"

definition get_input_filename ::
  "('p, 's, 'c) env \<Rightarrow> ('p, 's, 'c) model_info \<Rightarrow> string \<Rightarrow> int \<Rightarrow> string \<Rightarrow> string result" where
  "get_input_filename E self ftype sim_id extension_override =
     get_filename E self ftype sim_id True extension_override"

definition get_output_filename ::
  "('p, 's, 'c) env \<Rightarrow> ('p, 's, 'c) model_info \<Rightarrow> string \<Rightarrow> int \<Rightarrow> string \<Rightarrow> string result" where
  "get_output_filename E self ftype sim_id extension_override =
     get_filename E self ftype sim_id False extension_override"

text \<open>
  \<open>read_df\<close> and \<open>write_df\<close> of \<open>utils\<close> are parameters acting on a file store
  \<open>'fs\<close>; both are reached only after the file name has been resolved.
\<close>

definition read_simID ::
  "('p, 's, 'c) env \<Rightarrow> (string \<Rightarrow> 'fs \<Rightarrow> 'df result) \<Rightarrow> ('p, 's, 'c) model_info
     \<Rightarrow> string \<Rightarrow> int \<Rightarrow> bool \<Rightarrow> string \<Rightarrow> 'fs \<Rightarrow> 'df result" where
  "read_simID E read_df self ftype sim_id inp extension_override fs =
     (case get_filename E self ftype sim_id inp extension_override of
        Inl e \<Rightarrow> Inl e
      | Inr fname \<Rightarrow> read_df fname fs)"

definition write_simID ::
  "('p, 's, 'c) env \<Rightarrow> (string \<Rightarrow> 'df \<Rightarrow> 'fs \<Rightarrow> 'fs result) \<Rightarrow> ('p, 's, 'c) model_info
     \<Rightarrow> string \<Rightarrow> int \<Rightarrow> 'df \<Rightarrow> bool \<Rightarrow> string \<Rightarrow> 'fs \<Rightarrow> (string \<times> 'fs) result" where
  "write_simID E write_df self ftype sim_id df inp extension_override fs =
     (case get_filename E self ftype sim_id inp extension_override of
        Inl e \<Rightarrow> Inl e
      | Inr fname \<Rightarrow>
          (case write_df fname df fs of
             Inl e \<Rightarrow> Inl e
           | Inr fs1 \<Rightarrow> Inr (fname, fs1)))"

section \<open>A worked configuration\<close>

text \<open>
  Concrete collaborators and arguments, on which the statements below are run.
  \<open>eval_quotient\<close> is \<open>float(eval(s))\<close> on the fragment of Python expressions made of
  a decimal integer literal or the quotient of two; every other text is a
  \<open>SyntaxError\<close> here.
\<close>

definition digit_value :: "char \<Rightarrow> nat option" where
  "digit_value =
     map_of [(CHR ''0'', 0), (CHR ''1'', 1), (CHR ''2'', 2), (CHR ''3'', 3), (CHR ''4'', 4),
             (CHR ''5'', 5), (CHR ''6'', 6), (CHR ''7'', 7), (CHR ''8'', 8), (CHR ''9'', 9)]"

fun decimal :: "nat \<Rightarrow> string \<Rightarrow> nat option" where
  "decimal acc [] = Some acc"
| "decimal acc (c # cs) =
     (case digit_value c of None \<Rightarrow> None | Some d \<Rightarrow> decimal (10 * acc + d) cs)"

definition int_literal :: "string \<Rightarrow> nat option" where
  "int_literal s = (if s = [] then None else decimal 0 s)"

definition eval_quotient :: "string \<Rightarrow> real result" where
  "eval_quotient s =
     (case (int_literal (takeWhile (\<lambda>c. c \<noteq> CHR ''/'') s),
            dropWhile (\<lambda>c. c \<noteq> CHR ''/'') s) of
        (None, _) \<Rightarrow> Inl (Raised ''SyntaxError'' ''invalid syntax'')
      | (Some n, []) \<Rightarrow> Inr (real n)
      | (Some n, _ # r) \<Rightarrow>
          (case int_literal r of
             None \<Rightarrow> Inl (Raised ''SyntaxError'' ''invalid syntax'')
           | Some d \<Rightarrow>
               if d = 0 then Inl (Raised ''ZeroDivisionError'' ''division by zero'')
               else Inr (real n / real d)))"

text \<open>
  Decimal printing of an integer, padded with zeros to a width; a negative number
  keeps its sign in front of the padding.
\<close>

definition digit_char :: "nat \<Rightarrow> char" where
  "digit_char d = ''0123456789'' ! d"

function decimal_digits :: "nat \<Rightarrow> string" where
  "decimal_digits n =
     (if n < 10 then [digit_char n]
      else decimal_digits (n div 10) @ [digit_char (n mod 10)])"
  by pat_completeness auto
termination
  by (relation "measure id") auto

definition zero_padded :: "nat \<Rightarrow> int \<Rightarrow> string" where
  "zero_padded wd i =
     (if i < 0
      then (let s = decimal_digits (nat (- i))
            in CHR ''-'' # replicate (wd - 1 - length s) CHR ''0'' @ s)
      else (let s = decimal_digits (nat i)
            in replicate (wd - length s) CHR ''0'' @ s))"

text \<open>
  Modelled from the spec: \<open>file_paths.create_file_name\<close> is not among the sources.
  The spec gives the file name as
  \<open>{prefix}{zero-padded 9-digit global index}.{run_id}.{artifact_type}.{extension}\<close>,
  where the prefix already ends in \<open>/\<close>.
\<close>

definition create_file_name_spec ::
  "string \<Rightarrow> string \<Rightarrow> int \<Rightarrow> string \<Rightarrow> string \<Rightarrow> string" where
  "create_file_name_spec rid prefix index ftype ext =
     prefix @ zero_padded 9 index @ ''.'' @ rid @ ''.'' @ ftype @ ''.'' @ ext"

definition world0 :: world where
  "world0 = \<lparr> log = [], stdout = [], dirs = [] \<rparr>"

definition integration0 :: cfg where
  "integration0 = Mapping [(''method'', Scalar ''rk4''), (''dt'', Scalar ''1/4'')]"

definition config0 :: cfg where
  "config0 =
     Mapping [(''seir'', Mapping [(''integration'', integration0)]),
              (''compartments'', Mapping [(''infection_stage'', Scalar ''S'')])]"

definition env0 :: "(unit, unit, unit) env" where
  "env0 = \<lparr> config = Some config0,
            float_eval = eval_quotient,
            Parameters = (\<lambda>pc t0 t1 names. Inr ()),
            SeedingAndIC = (\<lambda>sc ic. Inr ()),
            Compartments = (\<lambda>sc cc. Inr ()),
            run_id = (\<lambda>n. if n = 0 then ''run_a'' else ''run_b''),
            now = ''20240101-120000'',
            create_dir_name = (\<lambda>rid prefix ftype. prefix),
            create_file_name = create_file_name_spec,
            makedirs = (\<lambda>d. None) \<rparr>"

definition subpop0 :: subpop where
  "subpop0 = \<lparr> subpop.nsubpops = 2,
               subpop.subpop_pop = [1000, 2000],
               subpop.mobility = [((0, 1), 10), ((1, 0), 5)],
               subpop_names = [''north'', ''south''] \<rparr>"

text \<open>
  The defaults of the signature, with the required arguments given and a
  \<open>parameters_config\<close> that is not empty.
\<close>

definition args0 :: args where
  "args0 = \<lparr> args.setup_name = ''demo'',
             subpop_setup = subpop0,
             args.nslots = 1,
             args.ti = Date 738000,
             args.tf = Date 738030,
             args.npi_scenario = None,
             args.npi_config_seir = Some (Mapping []),
             args.seeding_config = Some (Mapping []),
             args.initial_conditions_config = Some (Mapping []),
             args.parameters_config = Some (Mapping [(''beta'', Scalar ''0.3'')]),
             args.seir_config = None,
             args.outcomes_config = Some (Mapping []),
             args.outcome_scenario = None,
             args.interactive = True,
             args.write_csv = False,
             args.write_parquet = False,
             args.dt = None,
             args.first_sim_index = 1,
             args.in_run_id = None,
             args.in_prefix = None,
             args.out_run_id = None,
             args.out_prefix = None,
             args.stoch_traj_flag = False \<rparr>"

text \<open>
  Variants of the process-wide configuration: \<open>config_with seir\<close> has the given
  \<open>seir\<close> section and a \<open>compartments\<close> section, \<open>config_seir_only seir\<close> has the
  \<open>seir\<close> section alone. \<open>outcomes0\<close> is an outcomes configuration that is not empty.
\<close>

definition config_with :: "(string \<times> cfg) list \<Rightarrow> cfg" where
  "config_with seir =
     Mapping [(''seir'', Mapping seir),
              (''compartments'', Mapping [(''infection_stage'', Scalar ''S'')])]"

definition config_seir_only :: "(string \<times> cfg) list \<Rightarrow> cfg" where
  "config_seir_only seir = Mapping [(''seir'', Mapping seir)]"

definition outcomes0 :: cfg where
  "outcomes0 = Mapping [(''method'', Scalar ''delayframe'')]"

definition config_outcomes_modifiers :: cfg where
  "config_outcomes_modifiers =
     Mapping [(''seir'', Mapping []),
              (''outcomes_modifiers'', Mapping [(''scenarios'', Scalar ''med'')])]"

text \<open>
  A file store for \<open>read_df\<close> and \<open>write_df\<close>: the files by name, a data frame
  being a list of numbers.
\<close>

definition read_df0 :: "string \<Rightarrow> (string \<times> int list) list \<Rightarrow> int list result" where
  "read_df0 fname fs =
     (case map_of fs fname of
        None \<Rightarrow> Inl (Raised ''FileNotFoundError'' fname)
      | Some df \<Rightarrow> Inr df)"

definition write_df0 ::
  "string \<Rightarrow> int list \<Rightarrow> (string \<times> int list) list
     \<Rightarrow> (string \<times> int list) list result" where
  "write_df0 fname df fs = Inr ((fname, df) # fs)"

text \<open>The directories that a construction with \<open>env0\<close> and \<open>args0\<close> makes when it writes.\<close>

definition dirs0 :: "string list" where
  "dirs0 = [''model_output/demo/None/run_b/'', ''model_output/demo/None/run_b/'',
            ''model_output/demo/None/run_b/'']"

text \<open>The object that \<open>init env0 args0 world0\<close> builds.\<close>

definition self0 :: "(unit, unit, unit) model_info" where
  "self0 = \<lparr> setup_name = ''demo'',
             nslots = 1,
             dt = Some (1 / 4),
             ti = Date 738000,
             tf = Date 738030,
             npi_scenario = None,
             npi_config_seir = Some (Mapping []),
             seeding_config = Some (Mapping []),
             initial_conditions_config = Some (Mapping []),
             parameters_config = Some (Mapping [(''beta'', Scalar ''0.3'')]),
             outcomes_config = Some (Mapping []),
             seir_config = Some (Some (Mapping [(''integration'', integration0)])),
             interactive = True,
             write_csv = False,
             write_parquet = False,
             first_sim_index = 1,
             outcome_scenario = None,
             subpop_struct = subpop0,
             n_days = 31,
             nsubpops = 2,
             subpop_pop = [1000, 2000],
             mobility = [((0, 1), 10), ((1, 0), 5)],
             stoch_traj_flag = False,
             integration_method = Some (Scalar ''rk4.jit''),
             parameters = Some (),
             seedingAndIC = Some (),
             compartments = Some (),
             npi_config_outcomes = None,
             in_run_id = ''run_a'',
             out_run_id = ''run_b'',
             in_prefix = ''model_output/demo/run_a/'',
             out_prefix = ''model_output/demo/None/run_b/'',
             timestamp = None,
             extension = None \<rparr>"

text \<open>
  \<open>env_with seir\<close> is \<open>env0\<close> with the given \<open>seir\<close> section in the process-wide
  configuration, and \<open>self_with seir d im\<close> is \<open>self0\<close> with that section as
  \<open>seir_config\<close>, \<open>d\<close> as \<open>dt\<close> and \<open>im\<close> as \<open>integration_method\<close>.
\<close>

definition env_with :: "(string \<times> cfg) list \<Rightarrow> (unit, unit, unit) env" where
  "env_with seir = env0\<lparr>config := Some (config_with seir)\<rparr>"

definition self_with ::
  "(string \<times> cfg) list \<Rightarrow> real option \<Rightarrow> cfg option \<Rightarrow> (unit, unit, unit) model_info" where
  "self_with seir d im =
     self0\<lparr>seir_config := Some (Some (Mapping seir)), dt := d, integration_method := im\<rparr>"

text \<open>A \<open>seir\<close> section whose \<open>integration\<close> block has the entries \<open>ikvs\<close>.\<close>

definition seir_integration :: "(string \<times> cfg) list \<Rightarrow> (string \<times> cfg) list" where
  "seir_integration ikvs = [(''integration'', Mapping ikvs)]"

section \<open>Reading the integration settings\<close>

text \<open>
  \<open>seir_config_is E a kvs\<close>: the SEIR branch of line 91 runs, and \<open>self.seir_config\<close>
  is the mapping with the entries \<open>kvs\<close>.
\<close>

definition seir_config_is :: "('p, 's, 'c) env \<Rightarrow> args \<Rightarrow> (string \<times> cfg) list \<Rightarrow> bool" where
  "seir_config_is E a kvs \<longleftrightarrow>
     seir_branch_runs E a = Inr True \<and> self_seir_config E a = Some (Some (Mapping kvs))"

section \<open>Properties of the constructor\<close>

lemmas fixture_defs =
  env0_def args0_def world0_def config0_def integration0_def subpop0_def config_with_def
  config_seir_only_def outcomes0_def config_outcomes_modifiers_def env_with_def
  seir_integration_def

lemmas eval_defs = eval_quotient_def int_literal_def digit_value_def

lemmas phase_defs =
  init_seir_def init_integration_def resolve_dt_def resolve_method_def seir_branch_runs_def
  self_seir_config_def init_outcomes_def self_config_def init_run_ids_def init_output_def
  select_extension_def view_bool_def view_exists_def date_le_def date_sub_def
  str_optional_def

lemma init_env0_args0: "init env0 args0 world0 = (world0, Inr self0)"
  by (simp add: init_def phase_defs fixture_defs eval_defs self0_def)

lemma self0_names:
  "in_run_id self0 = ''run_a''" "out_run_id self0 = ''run_b''"
  "in_prefix self0 = ''model_output/demo/run_a/''"
  "out_prefix self0 = ''model_output/demo/None/run_b/''"
  "first_sim_index self0 = 1" "extension self0 = None"
  by (simp_all add: self0_def)

lemma env0_create_file_name: "create_file_name env0 = create_file_name_spec"
  by (simp add: env0_def)

subsection \<open>What a successful construction stores\<close>

lemma init_Inr_fields:
  assumes "init E a w = (w', Inr s)"
  shows "\<not> date_le (args.tf a) (args.ti a)"
    and "n_days s = days (date_sub (args.tf a) (args.ti a)) + 1"
    and "model_info.ti s = args.ti a"
    and "model_info.tf s = args.tf a"
    and "model_info.first_sim_index s = args.first_sim_index a"
  using assms
  by (auto simp: init_def split: if_splits prod.splits sum.splits)

subsection \<open>How the stages compose\<close>

lemma make_dirs_keeps:
  "make_dirs E rid pfx fts w = (w1, r) \<Longrightarrow> stdout w1 = stdout w \<and> log w1 = log w"
  by (induction fts arbitrary: w) (auto simp: Let_def split: option.splits)

lemma init_output_keeps_log:
  "init_output E a orid opfx w = (w2, r) \<Longrightarrow> log w2 = log w"
  by (auto simp: init_output_def select_extension_def Let_def dest: make_dirs_keeps
      split: if_splits sum.splits prod.splits option.splits)

lemma init_seir_keeps_stdout:
  "init_seir E a w = (w1, r) \<Longrightarrow> stdout w1 = stdout w"
  by (auto simp: init_seir_def Let_def
      split: sum.splits bool.splits prod.splits option.splits if_splits)

lemma init_Inr_seir:
  assumes "init E a w = (w', Inr s)"
  shows "\<exists>w1. init_seir E a w =
           (w1, Inr (model_info.dt s, integration_method s, parameters s, seedingAndIC s,
                     compartments s)) \<and> log w' = log w1"
  using assms
  by (auto simp: init_def dest: init_output_keeps_log split: if_splits prod.splits sum.splits)

lemma init_seir_runs_Inr:
  assumes "seir_branch_runs E a = Inr True"
    and "init_seir E a w = (w1, Inr (d, im, p, sd, c))"
  shows "\<exists>msgs. init_integration E (self_seir_config E a) (args.dt a) = Inr (d, im, msgs) \<and>
           log w1 = log w @ msgs"
  using assms
  by (auto simp: init_seir_def Let_def split: sum.splits prod.splits option.splits if_splits)

lemma init_seir_skipped:
  assumes "seir_branch_runs E a = Inr False"
  shows "init_seir E a w = (w, Inr (args.dt a, None, None, None, None))"
  using assms by (simp add: init_seir_def)

lemma init_integration_fails:
  assumes "\<not> date_le (args.tf a) (args.ti a)"
    and "seir_branch_runs E a = Inr True"
    and "init_integration E (self_seir_config E a) (args.dt a) = Inl e"
  shows "init E a w = (w, Inl e)"
  using assms by (simp add: init_def init_seir_def)

subsection \<open>The integration block, case by case\<close>

lemma key_present: "map_of kvs k = Some v \<Longrightarrow> k \<in> fst ` set kvs"
  by (metis map_of_eq_None_iff option.distinct(1))

lemma key_absent: "map_of kvs k = None \<Longrightarrow> k \<notin> fst ` set kvs"
  by (simp add: map_of_eq_None_iff)

lemma init_integration_block:
  assumes "map_of kvs ''integration'' = Some (Mapping ikvs)"
  shows "init_integration E (Some (Some (Mapping kvs))) d =
     (case (case map_of ikvs ''method'' of
              None \<Rightarrow> Inr None
            | Some v \<Rightarrow> (case resolve_method v of Inl e \<Rightarrow> Inl e | Inr m \<Rightarrow> Inr (Some m))) of
        Inl e \<Rightarrow> Inl e
      | Inr im \<Rightarrow>
          (case resolve_dt E (Some (Mapping ikvs)) (map fst ikvs) d of
             Inl e \<Rightarrow> Inl e
           | Inr d1 \<Rightarrow> Inr (d1, im, [])))"
proof (cases "map_of ikvs ''method''")
  case None
  with assms key_present [OF assms] key_absent [OF None] show ?thesis
    by (simp add: init_integration_def)
next
  case (Some v)
  with assms key_present [OF assms] key_present [OF Some] show ?thesis
    by (simp add: init_integration_def)
qed

lemma init_integration_no_block:
  assumes "map_of kvs ''integration'' = None"
  shows "init_integration E (Some (Some (Mapping kvs))) d =
     Inr (Some (case d of None \<Rightarrow> 2 | Some x \<Rightarrow> x), Some (Scalar ''rk4.jit''),
          [''Integration method not provided, assuming type rk4.jit''])"
  using assms key_absent [OF assms] by (simp add: init_integration_def)

lemma resolve_dt_override: "resolve_dt E ib iks (Some x) = Inr (Some x)"
  by (simp add: resolve_dt_def)

lemma resolve_dt_default:
  "map_of ikvs ''dt'' = None \<Longrightarrow>
     resolve_dt E (Some (Mapping ikvs)) (map fst ikvs) None = Inr (Some 2)"
  using key_absent [of ikvs "''dt''"] by (simp add: resolve_dt_def)

lemma resolve_dt_formula:
  "map_of ikvs ''dt'' = Some v \<Longrightarrow>
     resolve_dt E (Some (Mapping ikvs)) (map fst ikvs) None =
       (case float_eval E (py_str v) of Inl e \<Rightarrow> Inl e | Inr r \<Rightarrow> Inr (Some r))"
  using key_present [of ikvs "''dt''" v] by (simp add: resolve_dt_def)

lemma resolve_method_cases:
  "resolve_method (Scalar m) =
     (if m \<in> {''best.current'', ''rk4'', ''rk4.jit''} then Inr (Scalar ''rk4.jit'')
      else if m = ''legacy'' then Inr (Scalar ''legacy'')
      else Inl (ValueError (''Unknown integration method '' @ m @ ''.'')))"
  by (simp add: resolve_method_def)

subsection \<open>The output formats, case by case\<close>

lemma init_seir_flags:
  "init_seir E (a\<lparr>args.write_csv := x, args.write_parquet := y\<rparr>) w = init_seir E a w"
  by (simp add: init_seir_def seir_branch_runs_def self_seir_config_def
      cong: sum.case_cong bool.case_cong)

lemma init_outcomes_flags:
  "init_outcomes (a\<lparr>args.write_csv := x, args.write_parquet := y\<rparr>) = init_outcomes a"
  by (simp add: init_outcomes_def cong: sum.case_cong bool.case_cong)

lemma init_run_ids_flags:
  "init_run_ids E (a\<lparr>args.write_csv := x, args.write_parquet := y\<rparr>) = init_run_ids E a"
  by (simp add: init_run_ids_def cong: option.case_cong)

lemma init_output_ext:
  "init_output E a orid opfx w = (w2, Inr (ts, ext)) \<Longrightarrow>
     ext = (if args.write_parquet a then Some ''parquet''
            else if args.write_csv a then Some ''csv'' else None) \<and>
     stdout w2 = stdout w @
       (if args.write_parquet a \<and> args.write_csv a
        then [''Confused between reading .csv or parquet. Assuming input file is .parquet'']
        else [])"
  by (auto simp: init_output_def select_extension_def Let_def dest: make_dirs_keeps
      split: if_splits sum.splits prod.splits option.splits)

lemma init_output_both_fails:
  "isl (snd (init_output E (a\<lparr>args.write_csv := True, args.write_parquet := True\<rparr>)
               orid opfx w))
   = isl (snd (init_output E (a\<lparr>args.write_csv := False, args.write_parquet := True\<rparr>)
                 orid opfx w))"
  by (auto simp: init_output_def select_extension_def Let_def
      split: if_splits sum.splits prod.splits option.splits)

lemma init_Inr_ext:
  assumes "init E a w = (w', Inr s)"
  shows "extension s = (if args.write_parquet a then Some ''parquet''
            else if args.write_csv a then Some ''csv'' else None)"
    and "stdout w' = stdout w @
       (if args.write_parquet a \<and> args.write_csv a
        then [''Confused between reading .csv or parquet. Assuming input file is .parquet'']
        else [])"
  using assms
  by (auto simp: init_def dest!: init_output_ext init_seir_keeps_stdout
      split: if_splits prod.splits sum.splits)

lemma init_both_fails:
  "isl (snd (init E (a\<lparr>args.write_csv := True, args.write_parquet := True\<rparr>) w))
   = isl (snd (init E (a\<lparr>args.write_csv := False, args.write_parquet := True\<rparr>) w))"
proof (cases "date_le (args.tf a) (args.ti a)")
  case True
  then show ?thesis by (simp add: init_def)
next
  case False
  obtain w1 r where seir: "init_seir E a w = (w1, r)" by (cases "init_seir E a w")
  show ?thesis
  proof (cases r)
    case (Inl e)
    with False seir show ?thesis by (simp add: init_def init_seir_flags)
  next
    case (Inr t)
    obtain d im p s c where t: "t = (d, im, p, s, c)" by (cases t)
    show ?thesis
    proof (cases "init_outcomes a")
      case (Inl e)
      with False seir Inr t show ?thesis
        by (simp add: init_def init_seir_flags init_outcomes_flags)
    next
      case npi: (Inr npi)
      obtain irid orid ipfx opfx where ids: "init_run_ids E a = (irid, orid, ipfx, opfx)"
        by (cases "init_run_ids E a")
      from False seir Inr t npi ids init_output_both_fails [of E a orid opfx w1]
      show ?thesis
        by (auto simp: init_def init_seir_flags init_outcomes_flags init_run_ids_flags
            split: prod.splits sum.splits)
    qed
  qed
qed

subsection \<open>The time span\<close>

text \<open>
  Claim C3. When \<open>tf <= ti\<close> the constructor raises at line 61, before anything else
  has run: the world is unchanged and no object is returned. The exception is
  Python's \<open>ValueError\<close>, which is what the specification calls a configuration error.
\<close>

theorem init_rejects_tf_not_after_ti:
  "date_le (args.tf a) (args.ti a) \<Longrightarrow>
     init E a w =
       (w, Inl (ValueError
                  ''tf (time to finish) is less than or equal to ti (time to start)''))"
  by (simp add: init_def)

theorem init_rejects_tf_not_after_ti_witness:
  "date_le (Date 738000) (Date 738000) \<and>
   init env0 (args0\<lparr>args.tf := Date 738000\<rparr>) world0 =
     (world0, Inl (ValueError
                     ''tf (time to finish) is less than or equal to ti (time to start)''))"
  using init_rejects_tf_not_after_ti [of "args0\<lparr>args.tf := Date 738000\<rparr>" env0 world0]
  by (simp add: args0_def date_le_def)

text \<open>
  Claim C4. A constructed object comes from dates with \<open>ti < tf\<close>, stores them, and
  its \<open>n_days\<close> is \<open>(tf - ti).days + 1\<close>.
\<close>

theorem init_n_days:
  "snd (init E a w) = Inr s \<Longrightarrow>
     toordinal (args.ti a) < toordinal (args.tf a) \<and>
     model_info.ti s = args.ti a \<and> model_info.tf s = args.tf a \<and>
     n_days s = days (date_sub (args.tf a) (args.ti a)) + 1 \<and>
     n_days s = toordinal (model_info.tf s) - toordinal (model_info.ti s) + 1"
  using init_Inr_fields [of E a w "fst (init E a w)" s]
  by (cases "init E a w") (auto simp: date_le_def date_sub_def)

theorem init_n_days_witness:
  "snd (init env0 args0 world0) = Inr self0 \<and>
   toordinal (Date 738000) < toordinal (Date 738030) \<and>
   n_days self0 = days (date_sub (Date 738030) (Date 738000)) + 1 \<and>
   n_days self0 = 31"
proof -
  have dates: "args.ti args0 = Date 738000" "args.tf args0 = Date 738030"
    by (simp_all add: args0_def)
  have built: "snd (init env0 args0 world0) = Inr self0"
    by (simp add: init_env0_args0)
  from init_n_days [OF built] built dates show ?thesis
    by (simp add: self0_def date_sub_def)
qed

subsection \<open>Outcomes\<close>

text \<open>
  Claim C1. With an outcomes configuration that is not empty, line 135 reads
  \<open>self.config\<close>, which was never assigned: the outcomes stage raises
  \<open>AttributeError\<close> and no construction completes, whether or not the process-wide
  configuration has an \<open>outcomes_modifiers\<close> section. The lookup and the binding
  that the claim describes are never reached.
\<close>

theorem init_outcomes_reads_unassigned_config:
  assumes "view_bool (args.outcomes_config a) = Inr True"
  shows "init_outcomes a = Inl (AttributeError ''ModelInfo'' ''config'') \<and>
         isl (snd (init E a w))"
proof -
  have stage: "init_outcomes a = Inl (AttributeError ''ModelInfo'' ''config'')"
    using assms by (simp add: init_outcomes_def self_config_def)
  have "isl (snd (init E a w))"
    by (auto simp: init_def stage split: prod.splits sum.splits)
  with stage show ?thesis by simp
qed

theorem init_outcomes_reads_unassigned_config_witness:
  "view_bool (args.outcomes_config (args0\<lparr>args.outcomes_config := Some outcomes0\<rparr>))
     = Inr True \<and>
   view_exists (view_getitem (Some config_outcomes_modifiers) ''outcomes_modifiers'') \<and>
   init_outcomes (args0\<lparr>args.outcomes_config := Some outcomes0\<rparr>) =
     Inl (AttributeError ''ModelInfo'' ''config'') \<and>
   init (env0\<lparr>config := Some config_outcomes_modifiers\<rparr>)
        (args0\<lparr>args.outcomes_config := Some outcomes0\<rparr>) world0 =
     (world0\<lparr>log := [''Integration method not provided, assuming type rk4.jit'']\<rparr>,
      Inl (AttributeError ''ModelInfo'' ''config''))"
  using init_outcomes_reads_unassigned_config
    [of "args0\<lparr>args.outcomes_config := Some outcomes0\<rparr>"
        "env0\<lparr>config := Some config_outcomes_modifiers\<rparr>" world0]
  by (simp add: init_def phase_defs fixture_defs)

subsection \<open>File names\<close>

lemma resolve_extension_first_sim_index:
  "resolve_extension (self\<lparr>first_sim_index := k\<rparr>) ovr = resolve_extension self ovr"
  by (simp add: resolve_extension_def)

text \<open>
  Claim C9. Whenever a file name is resolved, the index handed to
  \<open>create_file_name\<close>, which prints it in the path, is
  \<open>sim_id + first_sim_index - 1\<close>: with \<open>sim_id = 1\<close> it is 1 when
  \<open>first_sim_index\<close> is 1 and 100 when \<open>first_sim_index\<close> is 100.
\<close>

theorem get_filename_global_index:
  assumes "resolve_extension self ovr = Inr ext"
  shows "get_filename E self ftype sim_id inp ovr =
           Inr (create_file_name E
                  (if inp then in_run_id self else out_run_id self)
                  (if inp then in_prefix self else out_prefix self)
                  (sim_id + first_sim_index self - 1) ftype ext) \<and>
         get_filename E (self\<lparr>first_sim_index := 1\<rparr>) ftype 1 inp ovr =
           Inr (create_file_name E
                  (if inp then in_run_id self else out_run_id self)
                  (if inp then in_prefix self else out_prefix self)
                  1 ftype ext) \<and>
         get_filename E (self\<lparr>first_sim_index := 100\<rparr>) ftype 1 inp ovr =
           Inr (create_file_name E
                  (if inp then in_run_id self else out_run_id self)
                  (if inp then in_prefix self else out_prefix self)
                  100 ftype ext)"
  using assms by (simp add: get_filename_def resolve_extension_first_sim_index)

theorem get_filename_global_index_witness:
  "resolve_extension (self0\<lparr>extension := Some ''parquet''\<rparr>) [] = Inr ''parquet'' \<and>
   get_filename env0 (self0\<lparr>extension := Some ''parquet'', first_sim_index := 100\<rparr>)
       ''hnpi'' 1 False [] =
     Inr ''model_output/demo/None/run_b/000000100.run_b.hnpi.parquet'' \<and>
   get_filename env0 (self0\<lparr>extension := Some ''parquet'', first_sim_index := 1\<rparr>)
       ''hnpi'' 1 True [] =
     Inr ''model_output/demo/run_a/000000001.run_a.hnpi.parquet'' \<and>
   get_filename env0 (self0\<lparr>extension := Some ''parquet'', first_sim_index := 7\<rparr>)
       ''seir'' 5 True [] =
     Inr ''model_output/demo/run_a/000000011.run_a.seir.parquet''"
proof -
  have ext: "resolve_extension (self0\<lparr>extension := Some ''parquet''\<rparr>) [] = Inr ''parquet''"
    by (simp add: resolve_extension_def)
  have ext7:
    "resolve_extension (self0\<lparr>extension := Some ''parquet'', first_sim_index := 7\<rparr>) []
       = Inr ''parquet''"
    by (simp add: resolve_extension_def)
  have pad: "zero_padded 9 100 = ''000000100''" "zero_padded 9 1 = ''000000001''"
    "zero_padded 9 11 = ''000000011''"
    by code_simp+
  from get_filename_global_index [OF ext, of env0 "''hnpi''" 1 False]
       get_filename_global_index [OF ext, of env0 "''hnpi''" 1 True]
       get_filename_global_index [OF ext7, of env0 "''seir''" 5 True]
       ext pad
  show ?thesis
    by (simp add: env0_def self0_def create_file_name_spec_def)
qed

text \<open>
  Claim C10. An object constructed with neither format requested has no
  \<open>extension\<close> attribute. With an empty override \<open>get_filename\<close> then raises
  \<open>AttributeError\<close>, and so do \<open>read_simID\<close> and \<open>write_simID\<close>, before any file
  is touched. With an override that is not empty \<open>get_filename\<close> returns the name
  built with exactly that override as its extension, \<open>read_simID\<close> returns what
  \<open>read_df\<close> returns for that name, and \<open>write_simID\<close> hands that name and the data
  frame to \<open>write_df\<close> and returns the name.
\<close>

theorem no_format_no_extension:
  assumes "snd (init E a w) = Inr s"
    and "\<not> args.write_csv a" and "\<not> args.write_parquet a"
  shows "extension s = None \<and>
         get_filename E s ftype sim_id inp [] =
           Inl (AttributeError ''ModelInfo'' ''extension'') \<and>
         read_simID E read_df s ftype sim_id inp [] fs =
           Inl (AttributeError ''ModelInfo'' ''extension'') \<and>
         write_simID E write_df s ftype sim_id df inp [] fs =
           Inl (AttributeError ''ModelInfo'' ''extension'') \<and>
         (ovr \<noteq> [] \<longrightarrow>
            get_filename E s ftype sim_id inp ovr =
              Inr (create_file_name E
                     (if inp then in_run_id s else out_run_id s)
                     (if inp then in_prefix s else out_prefix s)
                     (sim_id + first_sim_index s - 1) ftype ovr) \<and>
            read_simID E read_df s ftype sim_id inp ovr fs =
              read_df (create_file_name E
                         (if inp then in_run_id s else out_run_id s)
                         (if inp then in_prefix s else out_prefix s)
                         (sim_id + first_sim_index s - 1) ftype ovr) fs \<and>
            write_simID E write_df s ftype sim_id df inp ovr fs =
              (case write_df (create_file_name E
                                (if inp then in_run_id s else out_run_id s)
                                (if inp then in_prefix s else out_prefix s)
                                (sim_id + first_sim_index s - 1) ftype ovr) df fs of
                 Inl e \<Rightarrow> Inl e
               | Inr fs1 \<Rightarrow>
                   Inr (create_file_name E
                          (if inp then in_run_id s else out_run_id s)
                          (if inp then in_prefix s else out_prefix s)
                          (sim_id + first_sim_index s - 1) ftype ovr, fs1)))"
proof -
  from assms(1) have "init E a w = (fst (init E a w), Inr s)"
    by (cases "init E a w") simp
  from init_Inr_ext(1) [OF this] assms(2,3) have none: "extension s = None"
    by simp
  then show ?thesis
    by (simp add: get_filename_def read_simID_def write_simID_def resolve_extension_def)
qed

theorem no_format_no_extension_witness:
  "snd (init env0 args0 world0) = Inr self0 \<and>
   \<not> args.write_csv args0 \<and> \<not> args.write_parquet args0 \<and>
   extension self0 = None \<and>
   get_filename env0 self0 ''hnpi'' 1 False [] =
     Inl (AttributeError ''ModelInfo'' ''extension'') \<and>
   read_simID env0 read_df0 self0 ''hnpi'' 1 False [] [] =
     Inl (AttributeError ''ModelInfo'' ''extension'') \<and>
   write_simID env0 write_df0 self0 ''hnpi'' 1 [1, 2] False [] [] =
     Inl (AttributeError ''ModelInfo'' ''extension'') \<and>
   get_filename env0 self0 ''hnpi'' 1 False ''csv'' =
     Inr ''model_output/demo/None/run_b/000000001.run_b.hnpi.csv'' \<and>
   write_simID env0 write_df0 self0 ''hnpi'' 1 [1, 2] False ''csv'' [] =
     Inr (''model_output/demo/None/run_b/000000001.run_b.hnpi.csv'',
          [(''model_output/demo/None/run_b/000000001.run_b.hnpi.csv'', [1, 2])]) \<and>
   read_simID env0 read_df0 self0 ''hnpi'' 1 False ''csv''
       [(''model_output/demo/None/run_b/000000001.run_b.hnpi.csv'', [1, 2])] =
     Inr [1, 2] \<and>
   read_simID env0 read_df0 self0 ''hnpi'' 1 False ''csv'' [] =
     Inl (Raised ''FileNotFoundError''
            ''model_output/demo/None/run_b/000000001.run_b.hnpi.csv'')"
proof -
  have built: "snd (init env0 args0 world0) = Inr self0"
    by (simp add: init_env0_args0)
  have flags: "\<not> args.write_csv args0" "\<not> args.write_parquet args0"
    by (simp_all add: args0_def)
  have pad: "zero_padded 9 1 = ''000000001''"
    by code_simp
  from no_format_no_extension [OF built flags, of "''hnpi''" 1 False
         read_df0 "[]" write_df0 "[1, 2]" "''csv''"]
       no_format_no_extension [OF built flags, of "''hnpi''" 1 False
         read_df0 "[(''model_output/demo/None/run_b/000000001.run_b.hnpi.csv'', [1, 2])]"
         write_df0 "[1, 2]" "''csv''"]
       built flags pad
  show ?thesis
    by (simp add: self0_names env0_create_file_name create_file_name_spec_def
        read_df0_def write_df0_def)
qed

subsection \<open>The default extension\<close>

lemma init_env0_both:
  "init env0 (args0\<lparr>args.write_csv := True, args.write_parquet := True\<rparr>) world0 =
     (world0\<lparr>stdout :=
         [''Confused between reading .csv or parquet. Assuming input file is .parquet''],
        dirs := dirs0\<rparr>,
      Inr (self0\<lparr>write_csv := True, write_parquet := True,
                 timestamp := Some ''20240101-120000'', extension := Some ''parquet''\<rparr>))"
  by (simp add: init_def phase_defs fixture_defs eval_defs self0_def dirs0_def)

lemma init_env0_csv:
  "init env0 (args0\<lparr>args.write_csv := True\<rparr>) world0 =
     (world0\<lparr>dirs := dirs0\<rparr>,
      Inr (self0\<lparr>write_csv := True,
                 timestamp := Some ''20240101-120000'', extension := Some ''csv''\<rparr>))"
  by (simp add: init_def phase_defs fixture_defs eval_defs self0_def dirs0_def)

lemma init_env0_parquet:
  "init env0 (args0\<lparr>args.write_parquet := True\<rparr>) world0 =
     (world0\<lparr>dirs := dirs0\<rparr>,
      Inr (self0\<lparr>write_parquet := True,
                 timestamp := Some ''20240101-120000'', extension := Some ''parquet''\<rparr>))"
  by (simp add: init_def phase_defs fixture_defs eval_defs self0_def dirs0_def)

text \<open>
  Claim C8. When both formats are requested, a constructed object has the default
  extension \<open>parquet\<close> and exactly one line, the warning, was printed. The
  combination raises nothing of its own: the construction with both formats fails
  exactly when the one with Parquet alone fails. When one format is requested the
  default extension is that format's, and nothing is printed.
\<close>

theorem both_formats_parquet_wins:
  "(args.write_csv a \<and> args.write_parquet a \<and> init E a w = (w', Inr s) \<longrightarrow>
      extension s = Some ''parquet'' \<and>
      stdout w' = stdout w @
        [''Confused between reading .csv or parquet. Assuming input file is .parquet'']) \<and>
   isl (snd (init E (a\<lparr>args.write_csv := True, args.write_parquet := True\<rparr>) w))
     = isl (snd (init E (a\<lparr>args.write_csv := False, args.write_parquet := True\<rparr>) w)) \<and>
   (args.write_csv a \<and> \<not> args.write_parquet a \<and> init E a w = (w', Inr s) \<longrightarrow>
      extension s = Some ''csv'' \<and> stdout w' = stdout w) \<and>
   (\<not> args.write_csv a \<and> args.write_parquet a \<and> init E a w = (w', Inr s) \<longrightarrow>
      extension s = Some ''parquet'' \<and> stdout w' = stdout w)"
  using init_Inr_ext [of E a w w' s] init_both_fails [of E a w]
  by auto

theorem both_formats_parquet_wins_witness:
  "init env0 (args0\<lparr>args.write_csv := True, args.write_parquet := True\<rparr>) world0 =
     (world0\<lparr>stdout :=
         [''Confused between reading .csv or parquet. Assuming input file is .parquet''],
        dirs := dirs0\<rparr>,
      Inr (self0\<lparr>write_csv := True, write_parquet := True,
                 timestamp := Some ''20240101-120000'', extension := Some ''parquet''\<rparr>)) \<and>
   extension (self0\<lparr>write_csv := True, write_parquet := True,
                 timestamp := Some ''20240101-120000'', extension := Some ''parquet''\<rparr>)
     = Some ''parquet'' \<and>
   stdout (world0\<lparr>stdout :=
         [''Confused between reading .csv or parquet. Assuming input file is .parquet''],
        dirs := dirs0\<rparr>) = stdout world0 @
     [''Confused between reading .csv or parquet. Assuming input file is .parquet''] \<and>
   \<not> isl (snd (init env0
     (args0\<lparr>args.write_csv := True, args.write_parquet := True\<rparr>) world0)) \<and>
   \<not> isl (snd (init env0
     (args0\<lparr>args.write_csv := False, args.write_parquet := True\<rparr>) world0)) \<and>
   init env0 (args0\<lparr>args.write_csv := True\<rparr>) world0 =
     (world0\<lparr>dirs := dirs0\<rparr>,
      Inr (self0\<lparr>write_csv := True,
                 timestamp := Some ''20240101-120000'', extension := Some ''csv''\<rparr>)) \<and>
   extension (self0\<lparr>write_csv := True,
                 timestamp := Some ''20240101-120000'', extension := Some ''csv''\<rparr>)
     = Some ''csv'' \<and>
   init env0 (args0\<lparr>args.write_parquet := True\<rparr>) world0 =
     (world0\<lparr>dirs := dirs0\<rparr>,
      Inr (self0\<lparr>write_parquet := True,
                 timestamp := Some ''20240101-120000'', extension := Some ''parquet''\<rparr>)) \<and>
   extension (self0\<lparr>write_parquet := True,
                 timestamp := Some ''20240101-120000'', extension := Some ''parquet''\<rparr>)
     = Some ''parquet''"
proof -
  have flags:
    "args.write_csv (args0\<lparr>args.write_csv := True, args.write_parquet := True\<rparr>)"
    "args.write_parquet (args0\<lparr>args.write_csv := True, args.write_parquet := True\<rparr>)"
    "args.write_csv (args0\<lparr>args.write_csv := True\<rparr>)"
    "\<not> args.write_parquet (args0\<lparr>args.write_csv := True\<rparr>)"
    "\<not> args.write_csv (args0\<lparr>args.write_parquet := True\<rparr>)"
    "args.write_parquet (args0\<lparr>args.write_parquet := True\<rparr>)"
    by (simp_all add: args0_def)
  note both = both_formats_parquet_wins [of _ env0 world0, THEN conjunct1, rule_format,
      OF conjI, OF flags(1) conjI, OF flags(2) init_env0_both]
  note fails = both_formats_parquet_wins [of args0 env0 world0 world0 self0,
      THEN conjunct2, THEN conjunct1]
  note csv = both_formats_parquet_wins [of _ env0 world0, THEN conjunct2, THEN conjunct2,
      THEN conjunct1, rule_format, OF conjI, OF flags(3) conjI, OF flags(4) init_env0_csv]
  note parquet = both_formats_parquet_wins [of _ env0 world0, THEN conjunct2,
      THEN conjunct2, THEN conjunct2, rule_format, OF conjI, OF flags(5) conjI,
      OF flags(6) init_env0_parquet]
  have ok: "\<not> isl (snd (init env0
      (args0\<lparr>args.write_csv := True, args.write_parquet := True\<rparr>) world0))"
    by (simp add: init_env0_both)
  with fails have ok2: "\<not> isl (snd (init env0
      (args0\<lparr>args.write_csv := False, args.write_parquet := True\<rparr>) world0))"
    by simp
  from both csv parquet ok ok2 init_env0_both init_env0_csv init_env0_parquet
  show ?thesis
    by simp
qed

subsection \<open>The compartments section\<close>

lemma init_seir_no_compartments:
  assumes "\<not> view_exists (view_getitem (config E) ''compartments'')"
    and "init_seir E a w = (w1, Inr (d, im, p, sd, c))"
  shows "c = None"
  using assms
  by (auto simp: init_seir_def Let_def
      split: sum.splits bool.splits prod.splits option.splits if_splits)

lemma init_env0_seir_only:
  "init (env0\<lparr>config := Some (config_seir_only [(''integration'', integration0)])\<rparr>)
        args0 world0 = (world0, Inr (self0\<lparr>compartments := None\<rparr>))"
  by (simp add: init_def phase_defs fixture_defs eval_defs self0_def)

text \<open>
  Claim C2, as stated, fails: with a \<open>seir\<close> section and no \<open>compartments\<close> section
  the construction completes, and the object has no \<open>compartments\<close> attribute.
\<close>

theorem missing_compartments_counterexample:
  "view_exists (view_getitem
      (config (env0\<lparr>config := Some (config_seir_only [(''integration'', integration0)])\<rparr>))
      ''seir'') \<and>
   \<not> view_exists (view_getitem
      (config (env0\<lparr>config := Some (config_seir_only [(''integration'', integration0)])\<rparr>))
      ''compartments'') \<and>
   init (env0\<lparr>config := Some (config_seir_only [(''integration'', integration0)])\<rparr>)
        args0 world0 = (world0, Inr (self0\<lparr>compartments := None\<rparr>))"
  by (simp add: init_env0_seir_only) (simp add: config_seir_only_def view_exists_def)

text \<open>
  Claim C2, amended. When the process-wide configuration has no \<open>compartments\<close>
  section, line 127 skips the \<open>Compartments\<close> collaborator: once the integration
  settings, \<open>Parameters\<close> and \<open>SeedingAndIC\<close> are built the SEIR branch
  completes without an error, and a constructed object has no \<open>compartments\<close>
  attribute.
\<close>

theorem missing_compartments_skipped:
  assumes "\<not> view_exists (view_getitem (config E) ''compartments'')"
  shows "(seir_branch_runs E a = Inr True \<and>
          init_integration E (self_seir_config E a) (args.dt a) = Inr (d, im, msgs) \<and>
          Parameters E (args.parameters_config a) (args.ti a) (args.tf a)
            (subpop_names (args.subpop_setup a)) = Inr p \<and>
          SeedingAndIC E (args.seeding_config a) (args.initial_conditions_config a) = Inr sd
          \<longrightarrow> init_seir E a w =
                (w\<lparr>log := log w @ msgs\<rparr>, Inr (d, im, Some p, Some sd, None))) \<and>
         (snd (init E a w) = Inr s \<longrightarrow> compartments s = None)"
proof (intro conjI impI)
  assume "seir_branch_runs E a = Inr True \<and>
          init_integration E (self_seir_config E a) (args.dt a) = Inr (d, im, msgs) \<and>
          Parameters E (args.parameters_config a) (args.ti a) (args.tf a)
            (subpop_names (args.subpop_setup a)) = Inr p \<and>
          SeedingAndIC E (args.seeding_config a) (args.initial_conditions_config a) = Inr sd"
  with assms show "init_seir E a w =
      (w\<lparr>log := log w @ msgs\<rparr>, Inr (d, im, Some p, Some sd, None))"
    by (simp add: init_seir_def Let_def split: option.splits)
next
  assume "snd (init E a w) = Inr s"
  then have "init E a w = (fst (init E a w), Inr s)"
    by (cases "init E a w") simp
  from init_Inr_seir [OF this] obtain w1 where
    "init_seir E a w = (w1, Inr (model_info.dt s, integration_method s, parameters s,
        seedingAndIC s, compartments s))"
    by blast
  from init_seir_no_compartments [OF assms this] show "compartments s = None" .
qed

theorem missing_compartments_skipped_witness:
  "\<not> view_exists (view_getitem
      (config (env0\<lparr>config := Some (config_seir_only [(''integration'', integration0)])\<rparr>))
      ''compartments'') \<and>
   init_seir (env0\<lparr>config := Some (config_seir_only [(''integration'', integration0)])\<rparr>)
       args0 world0 =
     (world0, Inr (Some (1 / 4), Some (Scalar ''rk4.jit''), Some (), Some (), None)) \<and>
   snd (init (env0\<lparr>config := Some (config_seir_only [(''integration'', integration0)])\<rparr>)
          args0 world0) = Inr (self0\<lparr>compartments := None\<rparr>) \<and>
   compartments (self0\<lparr>compartments := None\<rparr>) = None"
proof -
  let ?E = "env0\<lparr>config := Some (config_seir_only [(''integration'', integration0)])\<rparr>"
  have absent: "\<not> view_exists (view_getitem (config ?E) ''compartments'')"
    by (simp add: config_seir_only_def view_exists_def)
  have pre: "seir_branch_runs ?E args0 = Inr True \<and>
          init_integration ?E (self_seir_config ?E args0) (args.dt args0)
            = Inr (Some (1 / 4), Some (Scalar ''rk4.jit''), []) \<and>
          Parameters ?E (args.parameters_config args0) (args.ti args0) (args.tf args0)
            (subpop_names (args.subpop_setup args0)) = Inr () \<and>
          SeedingAndIC ?E (args.seeding_config args0) (args.initial_conditions_config args0)
            = Inr ()"
    by (simp add: phase_defs fixture_defs eval_defs)
  have built: "snd (init ?E args0 world0) = Inr (self0\<lparr>compartments := None\<rparr>)"
    by (simp add: init_env0_seir_only)
  note inst = missing_compartments_skipped [OF absent,
      of args0 "Some (1 / 4)" "Some (Scalar ''rk4.jit'')" "[]" "()" "()" world0
         "self0\<lparr>compartments := None\<rparr>"]
  from inst [THEN conjunct1, rule_format, OF pre] inst [THEN conjunct2, rule_format, OF built]
    absent built
  show ?thesis by (simp add: world0_def)
qed

subsection \<open>The integration method\<close>

lemma init_runs_Inr:
  assumes "seir_config_is E a kvs" and "init E a w = (w', Inr s)"
  shows "\<exists>msgs. init_integration E (Some (Some (Mapping kvs))) (args.dt a) =
           Inr (model_info.dt s, integration_method s, msgs) \<and> log w' = log w @ msgs"
proof -
  from init_Inr_seir [OF assms(2)] obtain w1 where
    seir: "init_seir E a w = (w1, Inr (model_info.dt s, integration_method s, parameters s,
        seedingAndIC s, compartments s))" and lg: "log w' = log w1"
    by blast
  from assms(1) have runs: "seir_branch_runs E a = Inr True"
    and sc: "self_seir_config E a = Some (Some (Mapping kvs))"
    by (simp_all add: seir_config_is_def)
  from init_seir_runs_Inr [OF runs seir] sc lg show ?thesis
    by auto
qed

lemma init_runs_Inl:
  assumes "\<not> date_le (args.tf a) (args.ti a)" and "seir_config_is E a kvs"
    and "init_integration E (Some (Some (Mapping kvs))) (args.dt a) = Inl e"
  shows "init E a w = (w, Inl e)"
  using assms init_integration_fails [of a E e w]
  by (simp add: seir_config_is_def)

lemma init_integration_override:
  "init_integration E sc (Some x) = Inr (d, im, msgs) \<Longrightarrow> d = Some x"
  by (auto simp: init_integration_def resolve_dt_def Let_def
      split: option.splits sum.splits if_splits)

lemma init_override:
  assumes "args.dt a = Some x" and "init E a w = (w', Inr s)"
  shows "model_info.dt s = Some x"
proof -
  from init_Inr_seir [OF assms(2)] obtain w1 where
    seir: "init_seir E a w = (w1, Inr (model_info.dt s, integration_method s, parameters s,
        seedingAndIC s, compartments s))"
    by blast
  show ?thesis
  proof (cases "seir_branch_runs E a")
    case (Inl e)
    with seir show ?thesis by (simp add: init_seir_def)
  next
    case (Inr b)
    show ?thesis
    proof (cases b)
      case True
      with Inr init_seir_runs_Inr [OF _ seir] assms(1) show ?thesis
        by (auto dest: init_integration_override)
    next
      case False
      with Inr seir assms(1) show ?thesis by (simp add: init_seir_def)
    qed
  qed
qed


lemma args0_dates: "\<not> date_le (args.tf args0) (args.ti args0)"
  by (simp add: args0_def date_le_def)

lemma seir_config_is_env_with:
  "seir_config_is (env_with seir) args0 seir"
  "seir_config_is (env_with seir) (args0\<lparr>args.dt := d\<rparr>) seir"
  by (simp_all add: seir_config_is_def phase_defs fixture_defs)

lemma init_env_with_method:
  "init (env_with (seir_integration [(''method'', Scalar m)])) args0 world0 =
     (case resolve_method (Scalar m) of
        Inl e \<Rightarrow> (world0, Inl e)
      | Inr mm \<Rightarrow>
          (world0, Inr (self_with (seir_integration [(''method'', Scalar m)]) (Some 2) (Some mm))))"
  by (simp add: init_def init_seir_def init_integration_def resolve_dt_def
      seir_branch_runs_def self_seir_config_def init_outcomes_def self_config_def
      init_run_ids_def init_output_def select_extension_def view_bool_def view_exists_def
      date_le_def date_sub_def str_optional_def fixture_defs self0_def self_with_def
      split: sum.splits)


lemma seir_integration_block:
  "map_of (seir_integration ikvs) ''integration'' = Some (Mapping ikvs)"
  by (simp add: seir_integration_def)

text \<open>
  Claim C5, as stated, fails: \<open>legacy\<close> is none of the three aliases, and a
  configuration that names it is accepted, with \<open>legacy\<close> as the method.
\<close>

theorem method_legacy_counterexample:
  "''legacy'' \<notin> {''best.current'', ''rk4'', ''rk4.jit''} \<and>
   init (env_with (seir_integration [(''method'', Scalar ''legacy'')])) args0 world0 =
     (world0,
      Inr (self_with (seir_integration [(''method'', Scalar ''legacy'')])
             (Some 2) (Some (Scalar ''legacy''))))"
  by (simp add: init_def phase_defs fixture_defs eval_defs self0_def self_with_def)

text \<open>
  Claim C5, amended. When the SEIR branch runs on a configuration whose
  \<open>integration\<close> block names the method \<open>m\<close>: the three aliases
  \<open>best.current\<close>, \<open>rk4\<close> and \<open>rk4.jit\<close> resolve to \<open>rk4.jit\<close>, \<open>legacy\<close>
  resolves to itself, and every other string makes the constructor raise
  \<open>ValueError\<close> with the string in the message (the specification's configuration
  error), the world unchanged.
\<close>

theorem method_resolution:
  assumes "\<not> date_le (args.tf a) (args.ti a)" and "seir_config_is E a kvs"
    and "map_of kvs ''integration'' = Some (Mapping ikvs)"
    and "map_of ikvs ''method'' = Some (Scalar m)"
  shows "(m \<in> {''best.current'', ''rk4'', ''rk4.jit''} \<longrightarrow>
            resolve_method (Scalar m) = Inr (Scalar ''rk4.jit'') \<and>
            (snd (init E a w) = Inr s \<longrightarrow> integration_method s = Some (Scalar ''rk4.jit''))) \<and>
         (m = ''legacy'' \<longrightarrow>
            resolve_method (Scalar m) = Inr (Scalar ''legacy'') \<and>
            (snd (init E a w) = Inr s \<longrightarrow> integration_method s = Some (Scalar ''legacy''))) \<and>
         (m \<notin> {''best.current'', ''rk4'', ''rk4.jit'', ''legacy''} \<longrightarrow>
            init E a w =
              (w, Inl (ValueError (''Unknown integration method '' @ m @ ''.''))))"
proof -
  note block = init_integration_block [OF assms(3), of E "args.dt a"]
  have ok: "integration_method s = Some mm"
    if "resolve_method (Scalar m) = Inr mm" and "snd (init E a w) = Inr s" for mm
  proof -
    from that(2) have "init E a w = (fst (init E a w), Inr s)"
      by (cases "init E a w") simp
    from init_runs_Inr [OF assms(2) this] block assms(4) that(1) show ?thesis
      by (auto split: sum.splits)
  qed
  have bad: "init E a w = (w, Inl e)" if "resolve_method (Scalar m) = Inl e" for e
  proof -
    from block assms(4) that
    have "init_integration E (Some (Some (Mapping kvs))) (args.dt a) = Inl e"
      by simp
    from init_runs_Inl [OF assms(1,2) this] show ?thesis .
  qed
  show ?thesis
    using ok bad [of "ValueError (''Unknown integration method '' @ m @ ''.'')"]
    by (auto simp: resolve_method_cases)
qed


theorem method_resolution_witness:
  "init (env_with (seir_integration [(''method'', Scalar ''best.current'')])) args0 world0 =
     (world0, Inr (self_with (seir_integration [(''method'', Scalar ''best.current'')])
                     (Some 2) (Some (Scalar ''rk4.jit'')))) \<and>
   init (env_with (seir_integration [(''method'', Scalar ''rk4'')])) args0 world0 =
     (world0, Inr (self_with (seir_integration [(''method'', Scalar ''rk4'')])
                     (Some 2) (Some (Scalar ''rk4.jit'')))) \<and>
   init (env_with (seir_integration [(''method'', Scalar ''rk4.jit'')])) args0 world0 =
     (world0, Inr (self_with (seir_integration [(''method'', Scalar ''rk4.jit'')])
                     (Some 2) (Some (Scalar ''rk4.jit'')))) \<and>
   init (env_with (seir_integration [(''method'', Scalar ''legacy'')])) args0 world0 =
     (world0, Inr (self_with (seir_integration [(''method'', Scalar ''legacy'')])
                     (Some 2) (Some (Scalar ''legacy'')))) \<and>
   init (env_with (seir_integration [(''method'', Scalar ''euler'')])) args0 world0 =
     (world0, Inl (ValueError ''Unknown integration method euler.''))"
proof -
  note inst = method_resolution [OF args0_dates seir_config_is_env_with(1)
      seir_integration_block, of "[(''method'', Scalar m)]" m world0 for m, simplified]
  have res: "resolve_method (Scalar ''best.current'') = Inr (Scalar ''rk4.jit'')"
    "resolve_method (Scalar ''rk4'') = Inr (Scalar ''rk4.jit'')"
    "resolve_method (Scalar ''rk4.jit'') = Inr (Scalar ''rk4.jit'')"
    "resolve_method (Scalar ''legacy'') = Inr (Scalar ''legacy'')"
    using inst [of "''best.current''"] inst [of "''rk4''"] inst [of "''rk4.jit''"]
      inst [of "''legacy''"]
    by simp_all
  have bad: "init (env_with (seir_integration [(''method'', Scalar ''euler'')])) args0 world0 =
     (world0, Inl (ValueError ''Unknown integration method euler.''))"
    using inst [of "''euler''"] by simp
  from res bad show ?thesis
    by (simp add: init_env_with_method)
qed

subsection \<open>No method in the configuration\<close>

lemma init_env_with_no_method:
  "init (env_with (seir_integration [(''dt'', Scalar ''1/4'')])) args0 world0 =
     (world0, Inr (self_with (seir_integration [(''dt'', Scalar ''1/4'')]) (Some (1 / 4)) None))"
  by (simp add: init_def phase_defs fixture_defs eval_defs self0_def self_with_def)

lemma init_env_with_no_block:
  "init (env_with [(''parameters'', Mapping [])]) args0 world0 =
     (world0\<lparr>log := [''Integration method not provided, assuming type rk4.jit'']\<rparr>,
      Inr (self_with [(''parameters'', Mapping [])] (Some 2) (Some (Scalar ''rk4.jit''))))"
  by (simp add: init_def phase_defs fixture_defs eval_defs self0_def self_with_def)

text \<open>
  Claim C6. When the SEIR branch runs on a configuration with no \<open>integration\<close>
  block, the method defaults to \<open>rk4.jit\<close> and one record is logged (lines 108 to
  111). When the block is present without a \<open>method\<close> entry, no statement assigns
  \<open>integration_method\<close> and nothing is logged: the attribute is missing from the
  constructed object, against the claim and against the logged sentence
  ("Integration method not provided, assuming type ...").
\<close>

theorem method_not_configured:
  assumes "seir_config_is E a kvs"
  shows "(map_of kvs ''integration'' = None \<and> init E a w = (w', Inr s) \<longrightarrow>
            integration_method s = Some (Scalar ''rk4.jit'') \<and>
            log w' = log w @ [''Integration method not provided, assuming type rk4.jit'']) \<and>
         (map_of kvs ''integration'' = Some (Mapping ikvs) \<and> map_of ikvs ''method'' = None \<and>
          init E a w = (w', Inr s) \<longrightarrow>
            integration_method s = None \<and> log w' = log w)"
proof (intro conjI impI)
  assume h: "map_of kvs ''integration'' = None \<and> init E a w = (w', Inr s)"
  from init_runs_Inr [OF assms, of w w' s] h
    init_integration_no_block [of kvs E "args.dt a"]
  show "integration_method s = Some (Scalar ''rk4.jit'')"
    and "log w' = log w @ [''Integration method not provided, assuming type rk4.jit'']"
    by auto
next
  assume h: "map_of kvs ''integration'' = Some (Mapping ikvs) \<and>
             map_of ikvs ''method'' = None \<and> init E a w = (w', Inr s)"
  from init_runs_Inr [OF assms, of w w' s] h
    init_integration_block [of kvs ikvs E "args.dt a"]
  show "integration_method s = None" and "log w' = log w"
    by (auto split: sum.splits)
qed

theorem method_not_configured_witness:
  "init (env_with (seir_integration [(''dt'', Scalar ''1/4'')])) args0 world0 =
     (world0, Inr (self_with (seir_integration [(''dt'', Scalar ''1/4'')]) (Some (1 / 4)) None)) \<and>
   integration_method
     (self_with (seir_integration [(''dt'', Scalar ''1/4'')]) (Some (1 / 4)) None) = None \<and>
   log world0 = [] \<and>
   init (env_with [(''parameters'', Mapping [])]) args0 world0 =
     (world0\<lparr>log := [''Integration method not provided, assuming type rk4.jit'']\<rparr>,
      Inr (self_with [(''parameters'', Mapping [])] (Some 2) (Some (Scalar ''rk4.jit'')))) \<and>
   integration_method (self_with [(''parameters'', Mapping [])] (Some 2)
      (Some (Scalar ''rk4.jit''))) = Some (Scalar ''rk4.jit'')"
proof -
  have absent: "map_of [(''parameters'', Mapping [])] ''integration'' = None"
    "map_of [(''dt'', Scalar ''1/4'')] ''method'' = None"
    by simp_all
  note no_block = method_not_configured [OF seir_config_is_env_with(1), THEN conjunct1,
      rule_format, OF conjI, OF absent(1) init_env_with_no_block]
  note no_method = method_not_configured [OF seir_config_is_env_with(1), THEN conjunct2,
      rule_format, OF conjI, OF seir_integration_block conjI,
      OF absent(2) init_env_with_no_method]
  from no_block no_method init_env_with_no_block init_env_with_no_method show ?thesis
    by (simp add: world0_def)
qed

subsection \<open>The time step\<close>

lemma init_runs_isl:
  assumes "seir_config_is E a kvs"
    and "init_integration E (Some (Some (Mapping kvs))) (args.dt a) = Inl e"
  shows "isl (snd (init E a w))"
proof (cases "date_le (args.tf a) (args.ti a)")
  case True
  then show ?thesis by (simp add: init_def)
next
  case False
  from init_runs_Inl [OF False assms] show ?thesis by simp
qed

lemma init_env_with_bad_dt_override:
  "init (env_with (seir_integration [(''method'', Scalar ''rk4''), (''dt'', Scalar ''one quarter'')]))
        (args0\<lparr>args.dt := Some 1\<rparr>) world0 =
     (world0, Inr (self_with
        (seir_integration [(''method'', Scalar ''rk4''), (''dt'', Scalar ''one quarter'')])
        (Some 1) (Some (Scalar ''rk4.jit''))))"
  by (simp add: init_def phase_defs fixture_defs eval_defs self0_def self_with_def)

lemma eval_quotient_examples:
  "eval_quotient ''1/4'' = Inr (1 / 4)"
  "eval_quotient ''one quarter'' = Inl (Raised ''SyntaxError'' ''invalid syntax'')"
  by (simp_all add: eval_defs)

lemma float_eval_env_with: "float_eval (env_with seir) = eval_quotient"
  by (simp add: env_with_def env0_def)

lemma init_env_with_dt:
  "init (env_with (seir_integration [(''method'', Scalar ''rk4''), (''dt'', Scalar ''1/4'')]))
        args0 world0 =
     (world0, Inr (self_with
        (seir_integration [(''method'', Scalar ''rk4''), (''dt'', Scalar ''1/4'')])
        (Some (1 / 4)) (Some (Scalar ''rk4.jit''))))"
  by (simp add: init_def phase_defs fixture_defs eval_defs self0_def self_with_def)

lemma init_env_with_rk4:
  "init (env_with (seir_integration [(''method'', Scalar ''rk4'')])) args0 world0 =
     (world0, Inr (self_with (seir_integration [(''method'', Scalar ''rk4'')])
                     (Some 2) (Some (Scalar ''rk4.jit''))))"
  by (simp add: init_env_with_method resolve_method_cases)

lemma args0_dt: "args.dt args0 = None" "args.dt (args0\<lparr>args.dt := Some 1\<rparr>) = Some 1"
  by (simp_all add: args0_def)

lemma make_dirs_float_eval:
  "make_dirs (E\<lparr>float_eval := f\<rparr>) rid pfx fts w = make_dirs E rid pfx fts w"
  by (induction fts arbitrary: w) (simp_all add: Let_def split: option.splits)

lemma init_integration_float_eval:
  "init_integration (E\<lparr>float_eval := f\<rparr>) sc (Some x) = init_integration E sc (Some x)"
  by (simp add: init_integration_def resolve_dt_override Let_def
      split: option.splits sum.splits)

lemma seir_branch_runs_float_eval:
  "seir_branch_runs (E\<lparr>float_eval := f\<rparr>) a = seir_branch_runs E a"
  by (simp add: seir_branch_runs_def)

lemma self_seir_config_float_eval:
  "self_seir_config (E\<lparr>float_eval := f\<rparr>) a = self_seir_config E a"
  by (simp add: self_seir_config_def)

lemma init_override_float_eval:
  assumes "args.dt a = Some x"
  shows "init (E\<lparr>float_eval := f\<rparr>) a w = init E a w"
proof -
  have seir: "init_seir (E\<lparr>float_eval := f\<rparr>) a w = init_seir E a w"
    using assms
    by (simp add: init_seir_def seir_branch_runs_float_eval self_seir_config_float_eval
        init_integration_float_eval Let_def
        cong: sum.case_cong bool.case_cong option.case_cong prod.case_cong if_cong)
  have ids: "init_run_ids (E\<lparr>float_eval := f\<rparr>) a = init_run_ids E a"
    by (simp add: init_run_ids_def Let_def cong: option.case_cong)
  have out: "init_output (E\<lparr>float_eval := f\<rparr>) a orid opfx w1 = init_output E a orid opfx w1"
    for orid opfx w1
    by (simp add: init_output_def make_dirs_float_eval Let_def
        cong: sum.case_cong option.case_cong prod.case_cong if_cong)
  show ?thesis
    by (simp add: init_def seir ids out self_seir_config_float_eval
        cong: sum.case_cong prod.case_cong if_cong)
qed

text \<open>
  Claim C7, as stated, fails in its last part: with an explicit \<open>dt\<close> argument the
  configured expression is never evaluated (line 101), so a text that \<open>eval\<close>
  rejects does not stop the construction.
\<close>

theorem unparsable_dt_counterexample:
  "float_eval
     (env_with (seir_integration [(''method'', Scalar ''rk4''), (''dt'', Scalar ''one quarter'')]))
     ''one quarter'' = Inl (Raised ''SyntaxError'' ''invalid syntax'') \<and>
   init (env_with (seir_integration [(''method'', Scalar ''rk4''), (''dt'', Scalar ''one quarter'')]))
        (args0\<lparr>args.dt := Some 1\<rparr>) world0 =
     (world0, Inr (self_with
        (seir_integration [(''method'', Scalar ''rk4''), (''dt'', Scalar ''one quarter'')])
        (Some 1) (Some (Scalar ''rk4.jit''))))"
  by (simp add: init_env_with_bad_dt_override float_eval_env_with eval_quotient_examples)

text \<open>
  Claim C7, amended. When the SEIR branch runs: with no \<open>dt\<close> entry (no
  \<open>integration\<close> block, or a block without \<open>dt\<close>) and no override, \<open>dt\<close> is 2;
  with a \<open>dt\<close> entry that evaluates to \<open>r\<close> and no override, \<open>dt\<close> is \<open>r\<close>;
  with a \<open>dt\<close> entry whose evaluation raises and no override, the construction
  fails, with the exception of the evaluation when the method is absent or valid. An
  override always wins, in every construction that completes, and under an override
  the configured expression is not evaluated: the whole outcome of the construction,
  object, effects or exception, is the same whatever \<open>float(eval(...))\<close> would do.
\<close>

theorem step_size_resolution:
  "(args.dt a = None \<and> seir_config_is E a kvs \<and>
    (map_of kvs ''integration'' = None \<or>
     map_of kvs ''integration'' = Some (Mapping ikvs) \<and> map_of ikvs ''dt'' = None) \<and>
    snd (init E a w) = Inr s \<longrightarrow> model_info.dt s = Some 2) \<and>
   (args.dt a = None \<and> seir_config_is E a kvs \<and>
    map_of kvs ''integration'' = Some (Mapping ikvs) \<and> map_of ikvs ''dt'' = Some v \<and>
    float_eval E (py_str v) = Inr r \<and>
    snd (init E a w) = Inr s \<longrightarrow> model_info.dt s = Some r) \<and>
   (args.dt a = Some x \<and> snd (init E a w) = Inr s \<longrightarrow> model_info.dt s = Some x) \<and>
   (args.dt a = Some x \<longrightarrow> init (E\<lparr>float_eval := f\<rparr>) a w = init E a w) \<and>
   (args.dt a = None \<and> seir_config_is E a kvs \<and>
    map_of kvs ''integration'' = Some (Mapping ikvs) \<and> map_of ikvs ''dt'' = Some v \<and>
    float_eval E (py_str v) = Inl e \<longrightarrow>
      isl (snd (init E a w)) \<and>
      (\<not> date_le (args.tf a) (args.ti a) \<and>
       (map_of ikvs ''method'' = None \<or>
        (\<exists>m mm. map_of ikvs ''method'' = Some m \<and> resolve_method m = Inr mm)) \<longrightarrow>
         init E a w = (w, Inl e)))"
proof -
  have built: "init E a w = (fst (init E a w), Inr s)" if "snd (init E a w) = Inr s"
    using that by (cases "init E a w") simp
  have a: "model_info.dt s = Some 2"
    if "args.dt a = None" and "seir_config_is E a kvs"
      and "map_of kvs ''integration'' = None \<or>
           map_of kvs ''integration'' = Some (Mapping ikvs) \<and> map_of ikvs ''dt'' = None"
      and "snd (init E a w) = Inr s"
    using init_runs_Inr [OF that(2) built [OF that(4)]] that(1,3)
      init_integration_no_block [of kvs E None]
      init_integration_block [of kvs ikvs E None] resolve_dt_default [of ikvs E]
    by (auto split: sum.splits)
  have b: "model_info.dt s = Some r"
    if "args.dt a = None" and "seir_config_is E a kvs"
      and "map_of kvs ''integration'' = Some (Mapping ikvs)" and "map_of ikvs ''dt'' = Some v"
      and "float_eval E (py_str v) = Inr r" and "snd (init E a w) = Inr s"
    using init_runs_Inr [OF that(2) built [OF that(6)]] that(1,3,4,5)
      init_integration_block [of kvs ikvs E None] resolve_dt_formula [of ikvs v E]
    by (auto split: sum.splits)
  have c: "model_info.dt s = Some x" if "args.dt a = Some x" and "snd (init E a w) = Inr s"
    using init_override [OF that(1) built [OF that(2)]] .
  have stage: "\<exists>e'. init_integration E (Some (Some (Mapping kvs))) None = Inl e' \<and>
      ((map_of ikvs ''method'' = None \<or>
        (\<exists>m mm. map_of ikvs ''method'' = Some m \<and> resolve_method m = Inr mm)) \<longrightarrow> e' = e)"
    if "map_of kvs ''integration'' = Some (Mapping ikvs)" and "map_of ikvs ''dt'' = Some v"
      and "float_eval E (py_str v) = Inl e"
    using that init_integration_block [of kvs ikvs E None] resolve_dt_formula [of ikvs v E]
    by (auto split: sum.splits option.splits)
  have d: "isl (snd (init E a w)) \<and>
      (\<not> date_le (args.tf a) (args.ti a) \<and>
       (map_of ikvs ''method'' = None \<or>
        (\<exists>m mm. map_of ikvs ''method'' = Some m \<and> resolve_method m = Inr mm)) \<longrightarrow>
         init E a w = (w, Inl e))"
    if "args.dt a = None" and "seir_config_is E a kvs"
      and "map_of kvs ''integration'' = Some (Mapping ikvs)" and "map_of ikvs ''dt'' = Some v"
      and "float_eval E (py_str v) = Inl e"
  proof -
    from stage [OF that(3,4,5)] that(1) obtain e' where
      fails: "init_integration E (Some (Some (Mapping kvs))) (args.dt a) = Inl e'"
      and same: "(map_of ikvs ''method'' = None \<or>
        (\<exists>m mm. map_of ikvs ''method'' = Some m \<and> resolve_method m = Inr mm)) \<longrightarrow> e' = e"
      by auto
    from init_runs_isl [OF that(2) fails] init_runs_Inl [OF _ that(2) fails] same
    show ?thesis by auto
  qed
  have c': "init (E\<lparr>float_eval := f\<rparr>) a w = init E a w" if "args.dt a = Some x"
    using init_override_float_eval [OF that] .
  from a b c c' d show ?thesis by blast
qed


theorem step_size_resolution_witness:
  "snd (init (env_with [(''parameters'', Mapping [])]) args0 world0) =
     Inr (self_with [(''parameters'', Mapping [])] (Some 2) (Some (Scalar ''rk4.jit''))) \<and>
   model_info.dt (self_with [(''parameters'', Mapping [])] (Some 2)
     (Some (Scalar ''rk4.jit''))) = Some 2 \<and>
   snd (init (env_with (seir_integration [(''method'', Scalar ''rk4'')])) args0 world0) =
     Inr (self_with (seir_integration [(''method'', Scalar ''rk4'')])
            (Some 2) (Some (Scalar ''rk4.jit''))) \<and>
   model_info.dt (self_with (seir_integration [(''method'', Scalar ''rk4'')])
            (Some 2) (Some (Scalar ''rk4.jit''))) = Some 2 \<and>
   snd (init (env_with (seir_integration [(''method'', Scalar ''rk4''), (''dt'', Scalar ''1/4'')]))
          args0 world0) =
     Inr (self_with (seir_integration [(''method'', Scalar ''rk4''), (''dt'', Scalar ''1/4'')])
            (Some (1 / 4)) (Some (Scalar ''rk4.jit''))) \<and>
   model_info.dt
     (self_with (seir_integration [(''method'', Scalar ''rk4''), (''dt'', Scalar ''1/4'')])
        (Some (1 / 4)) (Some (Scalar ''rk4.jit''))) = Some (25 / 100) \<and>
   snd (init (env_with (seir_integration
               [(''method'', Scalar ''rk4''), (''dt'', Scalar ''one quarter'')]))
          (args0\<lparr>args.dt := Some 1\<rparr>) world0) =
     Inr (self_with (seir_integration
                       [(''method'', Scalar ''rk4''), (''dt'', Scalar ''one quarter'')])
            (Some 1) (Some (Scalar ''rk4.jit''))) \<and>
   model_info.dt
     (self_with (seir_integration
                   [(''method'', Scalar ''rk4''), (''dt'', Scalar ''one quarter'')])
        (Some 1) (Some (Scalar ''rk4.jit''))) = Some 1 \<and>
   init (env_with (seir_integration
               [(''method'', Scalar ''rk4''), (''dt'', Scalar ''one quarter'')]))
        args0 world0 = (world0, Inl (Raised ''SyntaxError'' ''invalid syntax'')) \<and>
   init ((env_with (seir_integration
                [(''method'', Scalar ''rk4''), (''dt'', Scalar ''one quarter'')]))
           \<lparr>float_eval := \<lambda>t. Inl (Raised ''NameError'' t)\<rparr>)
        (args0\<lparr>args.dt := Some 1\<rparr>) world0 =
     (world0, Inr (self_with (seir_integration
                       [(''method'', Scalar ''rk4''), (''dt'', Scalar ''one quarter'')])
            (Some 1) (Some (Scalar ''rk4.jit''))))"
proof -
  let ?S1 = "self_with [(''parameters'', Mapping [])] (Some 2) (Some (Scalar ''rk4.jit''))"
  let ?K2 = "[(''method'', Scalar ''rk4'')]"
  let ?S2 = "self_with (seir_integration ?K2) (Some 2) (Some (Scalar ''rk4.jit''))"
  let ?K3 = "[(''method'', Scalar ''rk4''), (''dt'', Scalar ''1/4'')]"
  let ?S3 = "self_with (seir_integration ?K3) (Some (1 / 4)) (Some (Scalar ''rk4.jit''))"
  let ?K4 = "[(''method'', Scalar ''rk4''), (''dt'', Scalar ''one quarter'')]"
  let ?S4 = "self_with (seir_integration ?K4) (Some 1) (Some (Scalar ''rk4.jit''))"
  have b1: "snd (init (env_with [(''parameters'', Mapping [])]) args0 world0) = Inr ?S1"
    by (simp add: init_env_with_no_block)
  have b2: "snd (init (env_with (seir_integration ?K2)) args0 world0) = Inr ?S2"
    by (simp add: init_env_with_rk4)
  have b3: "snd (init (env_with (seir_integration ?K3)) args0 world0) = Inr ?S3"
    by (simp add: init_env_with_dt)
  have b4: "snd (init (env_with (seir_integration ?K4)) (args0\<lparr>args.dt := Some 1\<rparr>) world0)
              = Inr ?S4"
    by (simp add: init_env_with_bad_dt_override)
  have d1: "model_info.dt ?S1 = Some 2"
    using step_size_resolution [of args0 "env_with [(''parameters'', Mapping [])]"
        "[(''parameters'', Mapping [])]" "[]" world0 ?S1]
      seir_config_is_env_with(1) [of "[(''parameters'', Mapping [])]"] b1 args0_dt(1)
    by simp
  have d2: "model_info.dt ?S2 = Some 2"
    using step_size_resolution [of args0 "env_with (seir_integration ?K2)"
        "seir_integration ?K2" ?K2 world0 ?S2]
      seir_config_is_env_with(1) [of "seir_integration ?K2"] b2 args0_dt(1)
      seir_integration_block [of ?K2]
    by simp
  have d3: "model_info.dt ?S3 = Some (1 / 4)"
    using step_size_resolution [of args0 "env_with (seir_integration ?K3)"
        "seir_integration ?K3" ?K3 world0 ?S3 "Scalar ''1/4''" "1 / 4"]
      seir_config_is_env_with(1) [of "seir_integration ?K3"] b3 args0_dt(1)
      seir_integration_block [of ?K3] eval_quotient_examples(1)
    by (simp add: float_eval_env_with)
  have d4: "model_info.dt ?S4 = Some 1"
    using step_size_resolution [of "args0\<lparr>args.dt := Some 1\<rparr>"
        "env_with (seir_integration ?K4)" _ _ world0 ?S4 _ _ 1] b4 args0_dt(2)
    by simp
  have d5: "init (env_with (seir_integration ?K4)) args0 world0 =
      (world0, Inl (Raised ''SyntaxError'' ''invalid syntax''))"
    using step_size_resolution [of args0 "env_with (seir_integration ?K4)"
        "seir_integration ?K4" ?K4 world0 _ "Scalar ''one quarter''" _ _ _
        "Raised ''SyntaxError'' ''invalid syntax''"]
      seir_config_is_env_with(1) [of "seir_integration ?K4"] args0_dt(1) args0_dates
      seir_integration_block [of ?K4] eval_quotient_examples(2)
    by (simp add: float_eval_env_with resolve_method_cases)
  have d6: "init ((env_with (seir_integration ?K4))
                    \<lparr>float_eval := \<lambda>t. Inl (Raised ''NameError'' t)\<rparr>)
              (args0\<lparr>args.dt := Some 1\<rparr>) world0 = (world0, Inr ?S4)"
    using step_size_resolution [of "args0\<lparr>args.dt := Some 1\<rparr>"
        "env_with (seir_integration ?K4)" _ _ world0 _ _ _ 1
        "\<lambda>t. Inl (Raised ''NameError'' t)"] args0_dt(2)
    by (simp add: init_env_with_bad_dt_override)
  from b1 b2 b3 b4 d1 d2 d3 d4 d5 d6 show ?thesis
    by simp
qed

end
